theory Spec2Isabelle
  imports Main
begin

section \<open>The chat server of the apiserver: data model\<close>

text \<open>
  The Go package \<open>chat\<close> holds the \<open>ChatServer\<close>: the lazily selected storage backend
  (\<open>Storage\<close>), one chat turn (\<open>AppRun\<close>) and the listing, retrieval and delete operations.
  Everything the server calls outside its own file (the cluster client, the application
  runner, the storage backends, the datasource probe) is a parameter of the model, collected
  in the record \<open>Env\<close>; the server's own control flow is translated line by line.

  Go errors are values: \<open>errors.New msg\<close> and \<open>fmt.Errorf "msg: %w" err\<close>.
\<close>

datatype error = New string | Errorf string error

text \<open>
  A Go call either returns or panics (a nil dereference, a method call on a nil interface).
  A function with the Go result \<open>(T, error)\<close> returns a value of \<open>error + T\<close>; where the
  source itself inspects both components of the pair, the pair is kept.
\<close>

datatype 'a outcome = Return 'a | Panic

type_synonym Time = nat

datatype Reference = Reference string

text \<open>\<open>storage.Message\<close>; a nil \<open>References\<close> slice is \<open>None\<close>.\<close>

record Message =
  MsgID :: string
  Query :: string
  Answer :: string
  References :: "Reference list option"

text \<open>\<open>storage.Conversation\<close>.\<close>

record Conversation =
  ID :: string
  AppName :: string
  AppNamespace :: string
  StartedAt :: Time
  UpdatedAt :: Time
  Messages :: "Message list"
  User :: string
  Debug :: bool

text \<open>The functional options of the storage package, one constructor for each.\<close>

datatype SearchOption =
  WithAppName string
| WithAppNamespace string
| WithDebug bool
| WithUser string
| WithConversationID string

text \<open>
  The request bodies: \<open>ConversationReqBody\<close> embeds \<open>APPMetadata\<close>, \<open>MessageReqBody\<close> and
  \<open>ChatReqBody\<close> embed \<open>ConversationReqBody\<close>. The fields of a request that share a name
  with a field of \<open>Conversation\<close> or \<open>Message\<close> carry the prefix \<open>Req\<close>.
\<close>

datatype ResponseMode = Blocking | Streaming

definition IsStreaming :: "ResponseMode \<Rightarrow> bool" where
  "IsStreaming m = (m = Streaming)"

record APPMetadata =
  APPName :: string
  ReqAppNamespace :: string

record ConversationReqBody = APPMetadata +
  ConversationID :: string

record MessageReqBody = ConversationReqBody +
  MessageID :: string

record ChatReqBody = ConversationReqBody +
  ReqQuery :: string
  ReqResponseMode :: ResponseMode
  ReqDebug :: bool
  NewChat :: bool

record ChatRespBody =
  RespConversationID :: string
  RespMessageID :: string
  RespMessage :: string
  RespCreatedAt :: Time
  RespReferences :: "Reference list option"

text \<open>
  The request context: the OIDC token read by \<open>auth.ForOIDCToken\<close>, the value stored under
  \<open>auth.UserNameContextKey\<close> (absent, or a string) and the application namespace that
  \<open>base.SetAppNamespace\<close> stores.
\<close>

record Ctx =
  OIDCToken :: string
  UserNameValue :: "string option"
  CtxAppNamespace :: "string option"

definition ForOIDCToken :: "Ctx \<Rightarrow> string" where
  "ForOIDCToken ctx = OIDCToken ctx"

text \<open>\<open>currentUser, _ := ctx.Value(auth.UserNameContextKey).(string)\<close>: the empty string
  when the value is absent.\<close>

definition currentUser :: "Ctx \<Rightarrow> string" where
  "currentUser ctx = (case UserNameValue ctx of None \<Rightarrow> [] | Some u \<Rightarrow> u)"

definition SetAppNamespace :: "Ctx \<Rightarrow> string \<Rightarrow> Ctx" where
  "SetAppNamespace ctx ns = ctx\<lparr>CtxAppNamespace := Some ns\<rparr>"

text \<open>
  The conversational memory (\<open>memory.ChatMessageHistory\<close> of langchaingo): the messages in
  the order they were added.
\<close>

datatype ChatMessage = HumanChatMessage string | AIChatMessage string

type_synonym ChatMessageHistory = "ChatMessage list"

definition NewChatMessageHistory :: ChatMessageHistory where
  "NewChatMessageHistory = []"

definition AddUserMessage :: "ChatMessageHistory \<Rightarrow> string \<Rightarrow> ChatMessageHistory" where
  "AddUserMessage h q = h @ [HumanChatMessage q]"

definition AddAIMessage :: "ChatMessageHistory \<Rightarrow> string \<Rightarrow> ChatMessageHistory" where
  "AddAIMessage h a = h @ [AIChatMessage a]"

text \<open>\<open>appruntime.Input\<close> and the two fields of the runner's output that the server reads.\<close>

record Input =
  Question :: string
  NeedStream :: bool
  History :: ChatMessageHistory

record Output =
  OutAnswer :: string
  OutReferences :: "Reference list option"

text \<open>Opaque handles of the collaborators' objects.\<close>

datatype Client = DynamicClient string
datatype Unstructured = Unstructured string
datatype Application = Application string
datatype AppRunner = AppRunner string
datatype Datasource = Datasource string
datatype PostgreSQL = PostgreSQL string
datatype Conn = Conn string

text \<open>
  The collaborators. \<open>'b\<close> is the type of a storage backend (the interface
  \<open>storage.Storage\<close>); its five methods are parameters. The two find methods and the list
  method read the backend; \<open>UpdateConversation\<close> and \<open>Delete\<close> return the changed backend.
  The find methods return the Go pair (pointer, error), since the server tests both. A
  conversation that a find returns is a value of its own: changing it leaves the backend as
  it is, until \<open>UpdateConversation\<close> is called.

  \<open>GetPostgreSQLPool\<close> is handed the datasource pointer as the server passes it, nil
  included, and may panic on it. \<open>Now k\<close> is the \<open>k\<close>-th reading of \<open>time.Now()\<close> within one
  call of \<open>AppRun\<close>.
\<close>

record 'b Env =
  GetClient :: "string \<Rightarrow> error + Client"
  GetApplication :: "Client \<Rightarrow> string \<Rightarrow> string \<Rightarrow> error + Unstructured"
  FromUnstructured :: "Unstructured \<Rightarrow> error + Application"
  IsReady :: "Application \<Rightarrow> bool"
  NewAppOrGetFromCache :: "Ctx \<Rightarrow> Client \<Rightarrow> Application \<Rightarrow> error + AppRunner"
  Run :: "AppRunner \<Rightarrow> Ctx \<Rightarrow> Client \<Rightarrow> Input \<Rightarrow> error + Output"
  Now :: "nat \<Rightarrow> Time"
  GetRelationalDatasource :: "Datasource option \<times> error option"
  GetPostgreSQLPool :: "Datasource option \<Rightarrow> (error + PostgreSQL) outcome"
  Acquire :: "PostgreSQL \<Rightarrow> error + Conn"
  NewPostgreSQLStorage :: "Conn \<Rightarrow> error + 'b"
  NewMemoryStorage :: "'b"
  FindExistingConversation ::
    "'b \<Rightarrow> string \<Rightarrow> SearchOption list \<Rightarrow> Conversation option \<times> error option"
  FindExistingMessage ::
    "'b \<Rightarrow> string \<Rightarrow> string \<Rightarrow> SearchOption list \<Rightarrow> Message option \<times> error option"
  ListConversationsOf :: "'b \<Rightarrow> SearchOption list \<Rightarrow> Conversation list \<times> error option"
  UpdateConversation :: "'b \<Rightarrow> Conversation \<Rightarrow> 'b \<times> error option"
  Delete :: "'b \<Rightarrow> SearchOption list \<Rightarrow> 'b \<times> error option"

text \<open>
  The calls a server method makes on the storage backend and on the application runner, with
  their arguments, in the order they are made.
\<close>

datatype Call =
  FindExistingConversationCall string "SearchOption list"
| FindExistingMessageCall string string "SearchOption list"
| ListConversationsCall "SearchOption list"
| UpdateConversationCall Conversation
| DeleteCall "SearchOption list"
| RunCall AppRunner Ctx Client Input

section \<open>Storage: the lazily selected backend\<close>

text \<open>
  \<open>ChatServer\<close>: the selected backend (nil at first) and the done flag of the \<open>sync.Once\<close>.
  The client \<open>cli\<close> is only handed to the probe, which is a parameter here.
\<close>

record 'b ChatServer =
  storage :: "'b option"
  once :: bool

definition NewChatServer :: "'b ChatServer" where
  "NewChatServer = \<lparr>storage = None, once = False\<rparr>"

text \<open>
  The function handed to \<open>once.Do\<close>. After the first test the source assigns the memory
  storage and goes on: there is no \<open>return\<close> in that branch, so \<open>GetPostgreSQLPool\<close> is
  called with \<open>ds\<close> whatever it is.
\<close>

definition Storage_init :: "'b Env \<Rightarrow> 'b ChatServer \<Rightarrow> unit outcome \<times> 'b ChatServer" where
  "Storage_init env cs =
    (let (ds, err) = GetRelationalDatasource env;
         cs1 = (if err \<noteq> None \<or> ds = None
                then cs\<lparr>storage := Some (NewMemoryStorage env)\<rparr> else cs)
     in case GetPostgreSQLPool env ds of
          Panic \<Rightarrow> (Panic, cs1)
        | Return (Inl e) \<Rightarrow> (Return (), cs1\<lparr>storage := Some (NewMemoryStorage env)\<rparr>)
        | Return (Inr pg) \<Rightarrow>
            (case Acquire env pg of
               Inl e \<Rightarrow> (Return (), cs1\<lparr>storage := Some (NewMemoryStorage env)\<rparr>)
             | Inr conn \<Rightarrow>
                 (case NewPostgreSQLStorage env conn of
                    Inl e \<Rightarrow> (Return (), cs1\<lparr>storage := Some (NewMemoryStorage env)\<rparr>)
                  | Inr db \<Rightarrow> (Return (), cs1\<lparr>storage := Some db\<rparr>))))"

text \<open>
  \<open>sync.Once.Do\<close>, one caller at a time: the function runs if the flag is not set, and the
  flag is set when the function returns or panics.
\<close>

definition once_Do ::
  "('b ChatServer \<Rightarrow> unit outcome \<times> 'b ChatServer) \<Rightarrow> 'b ChatServer
    \<Rightarrow> unit outcome \<times> 'b ChatServer" where
  "once_Do f cs =
    (if once cs then (Return (), cs)
     else (let (r, cs') = f cs in (r, cs'\<lparr>once := True\<rparr>)))"

definition Storage :: "'b Env \<Rightarrow> 'b ChatServer \<Rightarrow> 'b option outcome \<times> 'b ChatServer" where
  "Storage env cs =
    (if storage cs = None then
       (case once_Do (Storage_init env) cs of
          (Panic, cs') \<Rightarrow> (Panic, cs')
        | (Return u, cs') \<Rightarrow> (Return (storage cs'), cs'))
     else (Return (storage cs), cs))"

section \<open>AppRun: one chat turn\<close>

text \<open>
  The loop over \<open>conversation.Messages\<close>: each stored query is added as a user message and
  its answer as an AI message (the errors of both calls are dropped by the source).
\<close>

fun AppRun_replay :: "Message list \<Rightarrow> ChatMessageHistory \<Rightarrow> ChatMessageHistory" where
  "AppRun_replay [] history = history"
| "AppRun_replay (v # vs) history =
     AppRun_replay vs (AddAIMessage (AddUserMessage history (Query v)) (Answer v))"

text \<open>
  The search options of a continuing chat: application name, namespace and debug flag, and
  the user when \<open>currentUser\<close> is not the empty string.
\<close>

definition AppRun_search :: "Ctx \<Rightarrow> ChatReqBody \<Rightarrow> SearchOption list" where
  "AppRun_search ctx req =
    (let search = [WithAppName (APPName req), WithAppNamespace (ReqAppNamespace req),
                   WithDebug (ReqDebug req)]
     in if currentUser ctx \<noteq> [] then search @ [WithUser (currentUser ctx)] else search)"

text \<open>
  The block that resolves the conversation: a continuing chat looks the conversation up and
  replays it into the history, a new chat builds a fresh one. A lookup that returns neither a
  conversation nor an error makes the loop dereference nil.
\<close>

definition AppRun_conversation ::
  "'b Env \<Rightarrow> Ctx \<Rightarrow> ChatReqBody \<Rightarrow> 'b ChatServer
    \<Rightarrow> (error + Conversation \<times> ChatMessageHistory) outcome \<times> 'b ChatServer \<times> Call list" where
  "AppRun_conversation env ctx req cs =
    (let history = NewChatMessageHistory in
     if \<not> NewChat req then
       (let search = AppRun_search ctx req
        in case Storage env cs of
             (Panic, cs1) \<Rightarrow> (Panic, cs1, [])
           | (Return None, cs1) \<Rightarrow> (Panic, cs1, [])
           | (Return (Some b), cs1) \<Rightarrow>
               (let call = FindExistingConversationCall (ConversationID req) search
                in case FindExistingConversation env b (ConversationID req) search of
                     (found, Some err) \<Rightarrow> (Return (Inl err), cs1, [call])
                   | (None, None) \<Rightarrow> (Panic, cs1, [call])
                   | (Some conversation, None) \<Rightarrow>
                       (Return (Inr (conversation,
                                     AppRun_replay (Messages conversation) history)),
                        cs1, [call])))
     else
       (Return (Inr (\<lparr>ID = ConversationID req, AppName = APPName req,
                       AppNamespace = ReqAppNamespace req, StartedAt = Now env 0,
                       UpdatedAt = Now env 1, Messages = [], User = currentUser ctx,
                       Debug = ReqDebug req\<rparr>, history)),
        cs, []))"

text \<open>
  The rest of the turn: the new message is appended, the runner is fetched and run, and on
  success the last message is completed and the conversation handed to
  \<open>UpdateConversation\<close>. The index \<open>len - 1\<close> is in range, the message having just been
  appended. \<open>k\<close> is the number of clock readings made so far.
\<close>

definition AppRun_run ::
  "'b Env \<Rightarrow> Ctx \<Rightarrow> ChatReqBody \<Rightarrow> string \<Rightarrow> Client \<Rightarrow> Application \<Rightarrow> Conversation
    \<Rightarrow> ChatMessageHistory \<Rightarrow> nat \<Rightarrow> 'b ChatServer
    \<Rightarrow> (error + ChatRespBody) outcome \<times> 'b ChatServer \<times> Call list" where
  "AppRun_run env ctx0 req messageID c app conversation0 history k cs =
    (let conversation = conversation0\<lparr>Messages := Messages conversation0 @
             [\<lparr>MsgID = messageID, Query = ReqQuery req, Answer = [], References = None\<rparr>]\<rparr>;
         ctx = SetAppNamespace ctx0 (ReqAppNamespace req)
     in case NewAppOrGetFromCache env ctx c app of
          Inl err \<Rightarrow> (Return (Inl err), cs, [])
        | Inr appRun \<Rightarrow>
            (let inp = \<lparr>Question = ReqQuery req,
                        NeedStream = IsStreaming (ReqResponseMode req),
                        History = history\<rparr>;
                 call = RunCall appRun ctx c inp
             in case Run env appRun ctx c inp of
                  Inl err \<Rightarrow> (Return (Inl err), cs, [call])
                | Inr out \<Rightarrow>
                    (let conversation1 = conversation\<lparr>UpdatedAt := Now env k\<rparr>;
                         n = length (Messages conversation1) - 1;
                         conversation2 = conversation1\<lparr>Messages := (Messages conversation1)
                            [n := (Messages conversation1 ! n)\<lparr>Answer := OutAnswer out\<rparr>]\<rparr>;
                         conversation3 = conversation2\<lparr>Messages := (Messages conversation2)
                            [n := (Messages conversation2 ! n)
                                    \<lparr>References := OutReferences out\<rparr>]\<rparr>
                     in case Storage env cs of
                          (Panic, cs1) \<Rightarrow> (Panic, cs1, [call])
                        | (Return None, cs1) \<Rightarrow> (Panic, cs1, [call])
                        | (Return (Some b), cs1) \<Rightarrow>
                            (case UpdateConversation env b conversation3 of
                               (b', Some err) \<Rightarrow>
                                 (Return (Inl err), cs1\<lparr>storage := Some b'\<rparr>,
                                  [call, UpdateConversationCall conversation3])
                             | (b', None) \<Rightarrow>
                                 (Return (Inr \<lparr>RespConversationID = ID conversation3,
                                               RespMessageID = messageID,
                                               RespMessage = OutAnswer out,
                                               RespCreatedAt = Now env (k + 1),
                                               RespReferences = OutReferences out\<rparr>),
                                  cs1\<lparr>storage := Some b'\<rparr>,
                                  [call, UpdateConversationCall conversation3])))))"

text \<open>
  \<open>AppRun\<close>. The streaming channel is handed to the runner untouched and is not part of the
  model. The result is the value returned (or a panic), the server afterwards, and the calls
  made on the backend and the runner.
\<close>

definition AppRun ::
  "'b Env \<Rightarrow> Ctx \<Rightarrow> ChatReqBody \<Rightarrow> string \<Rightarrow> 'b ChatServer
    \<Rightarrow> (error + ChatRespBody) outcome \<times> 'b ChatServer \<times> Call list" where
  "AppRun env ctx req messageID cs =
    (let token = ForOIDCToken ctx in
     case GetClient env token of
       Inl err \<Rightarrow> (Return (Inl (Errorf ''failed to get a dynamic client'' err)), cs, [])
     | Inr c \<Rightarrow>
         (case GetApplication env c (ReqAppNamespace req) (APPName req) of
            Inl err \<Rightarrow> (Return (Inl (Errorf ''failed to get application'' err)), cs, [])
          | Inr obj \<Rightarrow>
              (case FromUnstructured env obj of
                 Inl err \<Rightarrow>
                   (Return (Inl (Errorf ''failed to convert application'' err)), cs, [])
               | Inr app \<Rightarrow>
                   if \<not> IsReady env app
                   then (Return (Inl (New ''application is not ready'')), cs, [])
                   else
                     (case AppRun_conversation env ctx req cs of
                        (Panic, cs1, calls1) \<Rightarrow> (Panic, cs1, calls1)
                      | (Return (Inl err), cs1, calls1) \<Rightarrow> (Return (Inl err), cs1, calls1)
                      | (Return (Inr (conversation, history)), cs1, calls1) \<Rightarrow>
                          (case AppRun_run env ctx req messageID c app conversation history
                                  (if NewChat req then 2 else 0) cs1 of
                             (r, cs2, calls2) \<Rightarrow> (r, cs2, calls1 @ calls2))))))"

section \<open>Listing, retrieval and delete\<close>

text \<open>A method call on the value \<open>Storage()\<close> returns; on a nil interface it panics.\<close>

definition ListConversations ::
  "'b Env \<Rightarrow> Ctx \<Rightarrow> 'a APPMetadata_scheme \<Rightarrow> 'b ChatServer
    \<Rightarrow> (Conversation list \<times> error option) outcome \<times> 'b ChatServer \<times> Call list" where
  "ListConversations env ctx req cs =
    (let user = currentUser ctx in
     case Storage env cs of
       (Panic, cs1) \<Rightarrow> (Panic, cs1, [])
     | (Return None, cs1) \<Rightarrow> (Panic, cs1, [])
     | (Return (Some b), cs1) \<Rightarrow>
         (let opts = [WithAppNamespace (ReqAppNamespace req), WithAppName (APPName req),
                      WithUser user, WithUser user]
          in (Return (ListConversationsOf env b opts), cs1, [ListConversationsCall opts])))"

definition DeleteConversation ::
  "'b Env \<Rightarrow> Ctx \<Rightarrow> string \<Rightarrow> 'b ChatServer
    \<Rightarrow> error option outcome \<times> 'b ChatServer \<times> Call list" where
  "DeleteConversation env ctx conversationID cs =
    (let user = currentUser ctx in
     case Storage env cs of
       (Panic, cs1) \<Rightarrow> (Panic, cs1, [])
     | (Return None, cs1) \<Rightarrow> (Panic, cs1, [])
     | (Return (Some b), cs1) \<Rightarrow>
         (let opts = [WithConversationID conversationID, WithUser user]
          in case Delete env b opts of
               (b', err) \<Rightarrow> (Return err, cs1\<lparr>storage := Some b'\<rparr>, [DeleteCall opts])))"

definition ListMessages ::
  "'b Env \<Rightarrow> Ctx \<Rightarrow> 'a ConversationReqBody_scheme \<Rightarrow> 'b ChatServer
    \<Rightarrow> (error + Conversation) outcome \<times> 'b ChatServer \<times> Call list" where
  "ListMessages env ctx req cs =
    (let user = currentUser ctx in
     case Storage env cs of
       (Panic, cs1) \<Rightarrow> (Panic, cs1, [])
     | (Return None, cs1) \<Rightarrow> (Panic, cs1, [])
     | (Return (Some b), cs1) \<Rightarrow>
         (let opts = [WithAppNamespace (ReqAppNamespace req), WithAppName (APPName req),
                      WithAppNamespace (ReqAppNamespace req), WithUser user];
              call = FindExistingConversationCall (ConversationID req) opts
          in case FindExistingConversation env b (ConversationID req) opts of
               (c, Some err) \<Rightarrow> (Return (Inl err), cs1, [call])
             | (Some c, None) \<Rightarrow> (Return (Inr c), cs1, [call])
             | (None, None) \<Rightarrow>
                 (Return (Inl (New ''conversation is not found'')), cs1, [call])))"

definition GetMessageReferences ::
  "'b Env \<Rightarrow> Ctx \<Rightarrow> 'a MessageReqBody_scheme \<Rightarrow> 'b ChatServer
    \<Rightarrow> (error + Reference list) outcome \<times> 'b ChatServer \<times> Call list" where
  "GetMessageReferences env ctx req cs =
    (let user = currentUser ctx in
     case Storage env cs of
       (Panic, cs1) \<Rightarrow> (Panic, cs1, [])
     | (Return None, cs1) \<Rightarrow> (Panic, cs1, [])
     | (Return (Some b), cs1) \<Rightarrow>
         (let opts = [WithAppNamespace (ReqAppNamespace req), WithAppName (APPName req),
                      WithAppNamespace (ReqAppNamespace req), WithUser user];
              call = FindExistingMessageCall (ConversationID req) (MessageID req) opts
          in case FindExistingMessage env b (ConversationID req) (MessageID req) opts of
               (m, Some err) \<Rightarrow> (Return (Inl err), cs1, [call])
             | (Some m, None) \<Rightarrow>
                 (case References m of
                    Some refs \<Rightarrow> (Return (Inr refs), cs1, [call])
                  | None \<Rightarrow>
                      (Return (Inl (New ''conversation or message is not found'')),
                       cs1, [call]))
             | (None, None) \<Rightarrow>
                 (Return (Inl (New ''conversation or message is not found'')),
                  cs1, [call])))"

section \<open>A storage backend and concrete collaborators\<close>

text \<open>
  Modelled from the spec: the in-memory Storage Backend of package \<open>storage\<close>, whose
  implementation is not among the sources at hand. The spec's contract (section 4.2): a
  search option is a predicate on a conversation and several options combine by logical
  conjunction; a find returns the unique conversation with the given ID that satisfies every
  option and fails otherwise; a listing is ordered by the most recent update first;
  \<open>UpdateConversation\<close> is an upsert by conversation ID; \<open>Delete\<close> removes every conversation
  that satisfies the options, and removing none is not an error. The backend is the list of
  stored conversations; what a find returns is a copy.
\<close>

fun option_holds :: "SearchOption \<Rightarrow> Conversation \<Rightarrow> bool" where
  "option_holds (WithAppName n) c = (AppName c = n)"
| "option_holds (WithAppNamespace ns) c = (AppNamespace c = ns)"
| "option_holds (WithDebug d) c = (Debug c = d)"
| "option_holds (WithUser u) c = (User c = u)"
| "option_holds (WithConversationID i) c = (ID c = i)"

definition options_hold :: "SearchOption list \<Rightarrow> Conversation \<Rightarrow> bool" where
  "options_hold opts c = list_all (\<lambda>opt. option_holds opt c) opts"

definition ErrConversationNotFound :: error where
  "ErrConversationNotFound = New ''conversation is not found''"

definition ErrMessageNotFound :: error where
  "ErrMessageNotFound = New ''message is not found''"

definition memory_FindExistingConversation ::
  "Conversation list \<Rightarrow> string \<Rightarrow> SearchOption list \<Rightarrow> Conversation option \<times> error option"
  where
  "memory_FindExistingConversation store conversationID opts =
    (case filter (\<lambda>c. ID c = conversationID \<and> options_hold opts c) store of
       [c] \<Rightarrow> (Some c, None)
     | _ \<Rightarrow> (None, Some ErrConversationNotFound))"

definition memory_FindExistingMessage ::
  "Conversation list \<Rightarrow> string \<Rightarrow> string \<Rightarrow> SearchOption list
    \<Rightarrow> Message option \<times> error option" where
  "memory_FindExistingMessage store conversationID messageID opts =
    (case memory_FindExistingConversation store conversationID opts of
       (Some c, None) \<Rightarrow>
         (case filter (\<lambda>m. MsgID m = messageID) (Messages c) of
            [m] \<Rightarrow> (Some m, None)
          | _ \<Rightarrow> (None, Some ErrMessageNotFound))
     | (found, err) \<Rightarrow> (None, err))"

definition memory_ListConversations ::
  "Conversation list \<Rightarrow> SearchOption list \<Rightarrow> Conversation list \<times> error option" where
  "memory_ListConversations store opts =
    (rev (sort_key UpdatedAt (filter (options_hold opts) store)), None)"

definition memory_UpdateConversation ::
  "Conversation list \<Rightarrow> Conversation \<Rightarrow> Conversation list \<times> error option" where
  "memory_UpdateConversation store c = (c # filter (\<lambda>x. ID x \<noteq> ID c) store, None)"

definition memory_Delete ::
  "Conversation list \<Rightarrow> SearchOption list \<Rightarrow> Conversation list \<times> error option" where
  "memory_Delete store opts = (filter (\<lambda>c. \<not> options_hold opts c) store, None)"

text \<open>
  Collaborators for concrete runs. The cluster knows two applications in every namespace,
  \<open>kubeagi\<close> (ready) and \<open>draft\<close> (not ready); the runner answers one question and fails on
  every other; a relational datasource is configured but its pool cannot be reached, so the
  selected backend is the in-memory one.
\<close>

definition demoOutput :: Output where
  "demoOutput = \<lparr>OutAnswer = ''KubeAGI is an orchestrator'',
                  OutReferences = Some [Reference ''README'']\<rparr>"

definition demoEnv :: "Conversation list Env" where
  "demoEnv =
    \<lparr>GetClient = (\<lambda>token. Inr (DynamicClient token)),
     GetApplication = (\<lambda>c ns name.
        if name = ''kubeagi'' \<or> name = ''draft'' then Inr (Unstructured name)
        else Inl (New ''applications not found'')),
     FromUnstructured = (\<lambda>obj. case obj of Unstructured name \<Rightarrow> Inr (Application name)),
     IsReady = (\<lambda>app. app = Application ''kubeagi''),
     NewAppOrGetFromCache = (\<lambda>ctx c app. Inr (AppRunner ''kubeagi-runner'')),
     Run = (\<lambda>appRun ctx c inp.
        if Question inp = ''What is KubeAGI?'' then Inr demoOutput
        else Inl (New ''llm call failed'')),
     Now = (\<lambda>k. 1000 + k),
     GetRelationalDatasource = (Some (Datasource ''pg''), None),
     GetPostgreSQLPool = (\<lambda>ds. case ds of
        None \<Rightarrow> Panic
      | Some d \<Rightarrow> Return (Inl (New ''connection refused''))),
     Acquire = (\<lambda>pg. Inl (New ''pool closed'')),
     NewPostgreSQLStorage = (\<lambda>conn. Inl (New ''no schema'')),
     NewMemoryStorage = [],
     FindExistingConversation = memory_FindExistingConversation,
     FindExistingMessage = memory_FindExistingMessage,
     ListConversationsOf = memory_ListConversations,
     UpdateConversation = memory_UpdateConversation,
     Delete = memory_Delete\<rparr>"

text \<open>
  The same collaborators when the discovery of the relational datasource fails: no
  datasource is returned, and the pool constructor dereferences the datasource it is given.
\<close>

definition noDatasourceEnv :: "Conversation list Env" where
  "noDatasourceEnv =
    demoEnv\<lparr>GetRelationalDatasource := (None, Some (New ''config not found''))\<rparr>"

definition aliceCtx :: Ctx where
  "aliceCtx = \<lparr>OIDCToken = ''token-alice'', UserNameValue = Some ''alice'',
               CtxAppNamespace = None\<rparr>"

definition newChatReq :: ChatReqBody where
  "newChatReq = \<lparr>APPName = ''kubeagi'', ReqAppNamespace = ''arcadia'',
                  ConversationID = ''conv-1'', ReqQuery = ''What is KubeAGI?'',
                  ReqResponseMode = Blocking, ReqDebug = False, NewChat = True\<rparr>"

definition firstMessage :: Message where
  "firstMessage = \<lparr>MsgID = ''msg-1'', Query = ''What is KubeAGI?'',
                    Answer = ''KubeAGI is an orchestrator'',
                    References = Some [Reference ''README'']\<rparr>"

definition pendingMessage :: Message where
  "pendingMessage = \<lparr>MsgID = ''msg-0'', Query = ''Hello?'', Answer = [],
                      References = None\<rparr>"

definition storedConversation :: Conversation where
  "storedConversation =
    \<lparr>ID = ''conv-1'', AppName = ''kubeagi'', AppNamespace = ''arcadia'', StartedAt = 10,
     UpdatedAt = 20, Messages = [pendingMessage, firstMessage], User = ''alice'',
     Debug = False\<rparr>"

definition readyServer :: "Conversation list ChatServer" where
  "readyServer = \<lparr>storage = Some [storedConversation], once = True\<rparr>"

definition emptyServer :: "Conversation list ChatServer" where
  "emptyServer = \<lparr>storage = Some [], once = True\<rparr>"

definition draftReq :: ChatReqBody where
  "draftReq = \<lparr>APPName = ''draft'', ReqAppNamespace = ''arcadia'',
                ConversationID = ''conv-1'', ReqQuery = ''What is KubeAGI?'',
                ReqResponseMode = Blocking, ReqDebug = False, NewChat = False\<rparr>"

definition listReq :: ConversationReqBody where
  "listReq = \<lparr>APPName = ''kubeagi'', ReqAppNamespace = ''arcadia'',
               ConversationID = ''conv-1''\<rparr>"

definition pendingReq :: MessageReqBody where
  "pendingReq = \<lparr>APPName = ''kubeagi'', ReqAppNamespace = ''arcadia'',
                  ConversationID = ''conv-1'', MessageID = ''msg-0''\<rparr>"

text \<open>
  Further requests on the same application: a continuing chat, a turn whose query the
  runner fails on (continuing and new), and a continuing chat on a conversation that is not
  stored.
\<close>

definition continueReq :: ChatReqBody where
  "continueReq = newChatReq\<lparr>NewChat := False\<rparr>"

definition failingReq :: ChatReqBody where
  "failingReq = newChatReq\<lparr>NewChat := False, ReqQuery := ''And then?''\<rparr>"

definition failingNewReq :: ChatReqBody where
  "failingNewReq = newChatReq\<lparr>ReqQuery := ''And then?''\<rparr>"

definition unknownReq :: ChatReqBody where
  "unknownReq = newChatReq\<lparr>NewChat := False, ConversationID := ''conv-404''\<rparr>"

text \<open>
  The context the runner is called with, and the conversations the successful turns store.
\<close>

definition runCtx :: Ctx where
  "runCtx = aliceCtx\<lparr>CtxAppNamespace := Some ''arcadia''\<rparr>"

definition newConversation :: Conversation where
  "newConversation =
    \<lparr>ID = ''conv-1'', AppName = ''kubeagi'', AppNamespace = ''arcadia'', StartedAt = 1000,
     UpdatedAt = 1002, Messages = [firstMessage], User = ''alice'', Debug = False\<rparr>"

definition continuedConversation :: Conversation where
  "continuedConversation =
    storedConversation\<lparr>UpdatedAt := 1000,
      Messages := [pendingMessage, firstMessage, firstMessage\<lparr>MsgID := ''msg-2''\<rparr>]\<rparr>"

section \<open>Notions used in the statements\<close>

text \<open>
  The history that the replay of a list of messages yields: for each message, in order, its
  query as a user message and then its answer as an AI message.
\<close>

definition replayed :: "Message list \<Rightarrow> ChatMessageHistory" where
  "replayed ms = concat (map (\<lambda>m. [HumanChatMessage (Query m), AIChatMessage (Answer m)]) ms)"

text \<open>
  The conversation as the turn completes it: the new message with the runner's answer and
  references at the end of the messages, and the time of the update.
\<close>

definition appended ::
  "Conversation \<Rightarrow> string \<Rightarrow> ChatReqBody \<Rightarrow> Output \<Rightarrow> nat \<Rightarrow> 'b Env \<Rightarrow> Conversation"
  where
  "appended conversation messageID req out k env =
     conversation\<lparr>UpdatedAt := Now env k,
       Messages := Messages conversation @
         [\<lparr>MsgID = messageID, Query = ReqQuery req, Answer = OutAnswer out,
           References = OutReferences out\<rparr>]\<rparr>"

text \<open>The options that carry the application identity.\<close>

fun is_app_option :: "SearchOption \<Rightarrow> bool" where
  "is_app_option (WithAppName n) = True"
| "is_app_option (WithAppNamespace ns) = True"
| "is_app_option opt = False"

section \<open>Properties of the backend selection\<close>

lemma Storage_selected: "storage cs = Some b \<Longrightarrow> Storage env cs = (Return (Some b), cs)"
  by (simp add: Storage_def)

lemma Storage_returns_field:
  assumes "Storage env cs = (Return r, cs1)"
  shows "storage cs1 = r"
  using assms
  by (auto simp: Storage_def split: if_splits prod.splits outcome.splits)

lemma Storage_again:
  assumes "Storage env cs = (Return (Some b), cs1)"
  shows "Storage env cs1 = (Return (Some b), cs1)"
  using Storage_returns_field [OF assms] by (rule Storage_selected)

text \<open>
  When the discovery returns no datasource, the memory storage is assigned and the probe goes
  on with the nil datasource: what \<open>Storage\<close> does is then what \<open>GetPostgreSQLPool\<close> makes of
  nil.
\<close>

lemma Storage_init_discovery_failure:
  assumes "GetRelationalDatasource env = (None, err)"
  shows "Storage env NewChatServer =
    (case GetPostgreSQLPool env None of
       Panic \<Rightarrow> (Panic, \<lparr>storage = Some (NewMemoryStorage env), once = True\<rparr>)
     | Return (Inl e) \<Rightarrow> (Return (Some (NewMemoryStorage env)),
                            \<lparr>storage = Some (NewMemoryStorage env), once = True\<rparr>)
     | Return (Inr pg) \<Rightarrow>
         (case Acquire env pg of
            Inl e \<Rightarrow> (Return (Some (NewMemoryStorage env)),
                        \<lparr>storage = Some (NewMemoryStorage env), once = True\<rparr>)
          | Inr conn \<Rightarrow>
              (case NewPostgreSQLStorage env conn of
                 Inl e \<Rightarrow> (Return (Some (NewMemoryStorage env)),
                             \<lparr>storage = Some (NewMemoryStorage env), once = True\<rparr>)
               | Inr db \<Rightarrow> (Return (Some db), \<lparr>storage = Some db, once = True\<rparr>))))"
  using assms
  by (simp add: Storage_def once_Do_def Storage_init_def NewChatServer_def
      split: outcome.splits sum.splits)

text \<open>
  With a datasource at hand, every later failure (the pool, the connection, the construction
  of the relational backend) selects the memory storage.
\<close>

lemma Storage_later_failure:
  assumes "GetRelationalDatasource env = (Some ds, None)"
    and "GetPostgreSQLPool env (Some ds) = Return (Inl e) \<or>
         (\<exists>pg. GetPostgreSQLPool env (Some ds) = Return (Inr pg) \<and>
            ((\<exists>e. Acquire env pg = Inl e) \<or>
             (\<exists>conn e. Acquire env pg = Inr conn \<and> NewPostgreSQLStorage env conn = Inl e)))"
  shows "Storage env NewChatServer =
    (Return (Some (NewMemoryStorage env)),
     \<lparr>storage = Some (NewMemoryStorage env), once = True\<rparr>)"
  using assms
  by (auto simp: Storage_def once_Do_def Storage_init_def NewChatServer_def)

text \<open>
  C5 (every failure of the selection yields an in-memory backend, and the failure is never
  propagated): not so when the discovery of the datasource fails. The branch that handles
  this failure lacks the \<open>return\<close> that its three siblings have, so the nil datasource
  reaches \<open>GetPostgreSQLPool\<close>; where that dereferences it, the first call of \<open>Storage\<close>
  panics instead of returning the memory storage it has just assigned, and so does the first
  new chat of a fresh server, after its runner has answered.
\<close>

theorem Storage_discovery_failure_panics:
  "GetRelationalDatasource noDatasourceEnv = (None, Some (New ''config not found''))
   \<and> Storage noDatasourceEnv NewChatServer = (Panic, \<lparr>storage = Some [], once = True\<rparr>)
   \<and> fst (AppRun noDatasourceEnv aliceCtx newChatReq ''msg-1'' NewChatServer) = Panic"
  by (simp add: AppRun_def AppRun_conversation_def AppRun_run_def Storage_def once_Do_def
      Storage_init_def NewChatServer_def noDatasourceEnv_def demoEnv_def aliceCtx_def
      newChatReq_def ForOIDCToken_def SetAppNamespace_def IsStreaming_def
      NewChatMessageHistory_def Let_def)

text \<open>
  Once a backend is selected, a listing on the server that the selection left behaves as on
  the server before it.
\<close>

lemma ListMessages_after_selection:
  assumes "Storage env cs = (Return (Some b), cs1)"
  shows "ListMessages env ctx req cs1 = ListMessages env ctx req cs"
  using assms Storage_again [OF assms] by (simp add: ListMessages_def)

lemma ListConversations_after_selection:
  assumes "Storage env cs = (Return (Some b), cs1)"
  shows "ListConversations env ctx req cs1 = ListConversations env ctx req cs"
  using assms Storage_again [OF assms] by (simp add: ListConversations_def)

section \<open>The blocks of a chat turn\<close>

lemma AppRun_replay_append: "AppRun_replay ms h = h @ replayed ms"
  by (induction ms arbitrary: h) (simp_all add: replayed_def AddUserMessage_def AddAIMessage_def)

lemma length_replayed: "length (replayed ms) = 2 * length ms"
  by (induction ms) (simp_all add: replayed_def)

lemma AppRun_conversation_new:
  assumes "NewChat req"
  shows "AppRun_conversation env ctx req cs =
    (Return (Inr (\<lparr>ID = ConversationID req, AppName = APPName req,
                    AppNamespace = ReqAppNamespace req, StartedAt = Now env 0,
                    UpdatedAt = Now env 1, Messages = [], User = currentUser ctx,
                    Debug = ReqDebug req\<rparr>, [])), cs, [])"
  using assms by (simp add: AppRun_conversation_def NewChatMessageHistory_def)

lemma AppRun_conversation_continuing:
  assumes "\<not> NewChat req" and "Storage env cs = (Return (Some b), cs1)"
  shows "AppRun_conversation env ctx req cs =
    (case FindExistingConversation env b (ConversationID req) (AppRun_search ctx req) of
       (found, Some err) \<Rightarrow> (Return (Inl err), cs1,
          [FindExistingConversationCall (ConversationID req) (AppRun_search ctx req)])
     | (None, None) \<Rightarrow> (Panic, cs1,
          [FindExistingConversationCall (ConversationID req) (AppRun_search ctx req)])
     | (Some conversation, None) \<Rightarrow>
         (Return (Inr (conversation, replayed (Messages conversation))), cs1,
          [FindExistingConversationCall (ConversationID req) (AppRun_search ctx req)]))"
  using assms
  by (simp add: AppRun_conversation_def NewChatMessageHistory_def AppRun_replay_append Let_def
      split: prod.splits option.splits)

lemma AppRun_conversation_Return:
  assumes "AppRun_conversation env ctx req cs = (Return (Inr (conversation, history)), cs1, calls1)"
  shows "(NewChat req \<and> history = [] \<and> Messages conversation = [] \<and> cs1 = cs \<and> calls1 = []
          \<and> ID conversation = ConversationID req)
       \<or> (\<not> NewChat req \<and> (\<exists>b. Storage env cs = (Return (Some b), cs1) \<and>
             FindExistingConversation env b (ConversationID req) (AppRun_search ctx req)
               = (Some conversation, None)) \<and>
             history = replayed (Messages conversation) \<and>
             calls1 = [FindExistingConversationCall (ConversationID req) (AppRun_search ctx req)])"
proof (cases "NewChat req")
  case True
  with assms AppRun_conversation_new [OF True, of env ctx cs] show ?thesis by auto
next
  case False
  from assms False obtain b where sel: "Storage env cs = (Return (Some b), cs1)"
    by (auto simp: AppRun_conversation_def Let_def
        split: prod.splits option.splits outcome.splits)
  from assms AppRun_conversation_continuing [OF False sel, of ctx] False sel
  show ?thesis by (auto split: prod.splits option.splits)
qed

lemma AppRun_conversation_calls:
  assumes "AppRun_conversation env ctx req cs = (r, cs1, calls1)"
  shows "calls1 = [] \<or>
         calls1 = [FindExistingConversationCall (ConversationID req) (AppRun_search ctx req)]"
  using assms
  by (auto simp: AppRun_conversation_def Let_def
      split: if_splits prod.splits option.splits outcome.splits)

lemma AppRun_conversation_server:
  assumes "AppRun_conversation env ctx req cs = (r, cs1, calls1)"
  shows "cs1 = (if NewChat req then cs else snd (Storage env cs))"
  using assms
  by (auto simp: AppRun_conversation_def Let_def
      split: if_splits prod.splits option.splits outcome.splits)

text \<open>
  The ways the rest of the turn ends: no runner, a runner that fails, a runner that answers.
\<close>

lemma AppRun_run_no_runner:
  assumes "NewAppOrGetFromCache env (SetAppNamespace ctx (ReqAppNamespace req)) c app = Inl err"
  shows "AppRun_run env ctx req messageID c app conversation history k cs
           = (Return (Inl err), cs, [])"
  using assms by (simp add: AppRun_run_def)

lemma AppRun_run_failure:
  assumes "NewAppOrGetFromCache env (SetAppNamespace ctx (ReqAppNamespace req)) c app = Inr appRun"
    and "Run env appRun (SetAppNamespace ctx (ReqAppNamespace req)) c
           \<lparr>Question = ReqQuery req, NeedStream = IsStreaming (ReqResponseMode req),
            History = history\<rparr> = Inl err"
  shows "AppRun_run env ctx req messageID c app conversation history k cs
           = (Return (Inl err), cs,
              [RunCall appRun (SetAppNamespace ctx (ReqAppNamespace req)) c
                \<lparr>Question = ReqQuery req, NeedStream = IsStreaming (ReqResponseMode req),
                 History = history\<rparr>])"
  using assms by (simp add: AppRun_run_def)

lemma AppRun_run_success:
  assumes "NewAppOrGetFromCache env (SetAppNamespace ctx (ReqAppNamespace req)) c app = Inr appRun"
    and "Run env appRun (SetAppNamespace ctx (ReqAppNamespace req)) c
           \<lparr>Question = ReqQuery req, NeedStream = IsStreaming (ReqResponseMode req),
            History = history\<rparr> = Inr out"
  shows "AppRun_run env ctx req messageID c app conversation history k cs =
    (case Storage env cs of
       (Panic, cs1) \<Rightarrow> (Panic, cs1,
          [RunCall appRun (SetAppNamespace ctx (ReqAppNamespace req)) c
            \<lparr>Question = ReqQuery req, NeedStream = IsStreaming (ReqResponseMode req),
             History = history\<rparr>])
     | (Return None, cs1) \<Rightarrow> (Panic, cs1,
          [RunCall appRun (SetAppNamespace ctx (ReqAppNamespace req)) c
            \<lparr>Question = ReqQuery req, NeedStream = IsStreaming (ReqResponseMode req),
             History = history\<rparr>])
     | (Return (Some b), cs1) \<Rightarrow>
         (case UpdateConversation env b (appended conversation messageID req out k env) of
            (b', Some err) \<Rightarrow> (Return (Inl err), cs1\<lparr>storage := Some b'\<rparr>,
               [RunCall appRun (SetAppNamespace ctx (ReqAppNamespace req)) c
                 \<lparr>Question = ReqQuery req, NeedStream = IsStreaming (ReqResponseMode req),
                  History = history\<rparr>,
                UpdateConversationCall (appended conversation messageID req out k env)])
          | (b', None) \<Rightarrow>
              (Return (Inr \<lparr>RespConversationID = ID conversation,
                            RespMessageID = messageID, RespMessage = OutAnswer out,
                            RespCreatedAt = Now env (k + 1),
                            RespReferences = OutReferences out\<rparr>),
               cs1\<lparr>storage := Some b'\<rparr>,
               [RunCall appRun (SetAppNamespace ctx (ReqAppNamespace req)) c
                 \<lparr>Question = ReqQuery req, NeedStream = IsStreaming (ReqResponseMode req),
                  History = history\<rparr>,
                UpdateConversationCall (appended conversation messageID req out k env)])))"
proof -
  have upd: "\<And>ms (m::Message) f. (ms @ [m])[length ms := f m] = ms @ [f m]"
    by simp
  show ?thesis
    using assms
    by (simp add: AppRun_run_def Let_def appended_def nth_append
        split: prod.splits option.splits outcome.splits)
qed

lemma AppRun_run_RunCall:
  assumes "AppRun_run env ctx req messageID c app conversation history k cs = (r, cs', calls)"
    and "RunCall appRun rctx c' inp \<in> set calls"
  shows "rctx = SetAppNamespace ctx (ReqAppNamespace req) \<and> c' = c \<and>
         NewAppOrGetFromCache env rctx c app = Inr appRun \<and>
         inp = \<lparr>Question = ReqQuery req, NeedStream = IsStreaming (ReqResponseMode req),
                History = history\<rparr>"
  using assms
  by (auto simp: AppRun_run_def Let_def
      split: sum.splits prod.splits option.splits outcome.splits)

lemma AppRun_run_Update:
  assumes "AppRun_run env ctx req messageID c app conversation history k cs = (r, cs', calls)"
    and "UpdateConversationCall conv \<in> set calls"
  shows "\<exists>appRun out. NewAppOrGetFromCache env (SetAppNamespace ctx (ReqAppNamespace req)) c app
            = Inr appRun \<and>
          Run env appRun (SetAppNamespace ctx (ReqAppNamespace req)) c
           \<lparr>Question = ReqQuery req, NeedStream = IsStreaming (ReqResponseMode req),
            History = history\<rparr> = Inr out \<and>
          conv = appended conversation messageID req out k env"
proof (cases "NewAppOrGetFromCache env (SetAppNamespace ctx (ReqAppNamespace req)) c app")
  case (Inl err)
  from assms AppRun_run_no_runner [OF Inl, of messageID conversation history k cs]
  show ?thesis by auto
next
  case (Inr appRun)
  show ?thesis
  proof (cases "Run env appRun (SetAppNamespace ctx (ReqAppNamespace req)) c
           \<lparr>Question = ReqQuery req, NeedStream = IsStreaming (ReqResponseMode req),
            History = history\<rparr>")
    case (Inl err)
    from assms AppRun_run_failure [OF Inr Inl, of messageID conversation k cs]
    show ?thesis by auto
  next
    case out: (Inr out)
    from assms AppRun_run_success [OF Inr out, of messageID conversation k cs]
    have "conv = appended conversation messageID req out k env"
      by (auto split: prod.splits option.splits outcome.splits)
    with Inr out show ?thesis by blast
  qed
qed

text \<open>
  What a call of the runner, or of \<open>UpdateConversation\<close>, among the calls of \<open>AppRun\<close> tells
  about the turn.
\<close>

lemma AppRun_RunCall:
  assumes run: "AppRun env ctx req messageID cs = (r, cs', calls)"
    and called: "RunCall appRun rctx c inp \<in> set calls"
  shows "\<exists>app conversation history cs1 calls1 calls2.
      AppRun_conversation env ctx req cs = (Return (Inr (conversation, history)), cs1, calls1) \<and>
      AppRun_run env ctx req messageID c app conversation history
         (if NewChat req then 2 else 0) cs1 = (r, cs', calls2) \<and>
      calls = calls1 @ calls2 \<and>
      rctx = SetAppNamespace ctx (ReqAppNamespace req) \<and>
      NewAppOrGetFromCache env rctx c app = Inr appRun \<and>
      inp = \<lparr>Question = ReqQuery req, NeedStream = IsStreaming (ReqResponseMode req),
             History = history\<rparr>"
proof -
  from run called obtain c0 obj app where
    client: "GetClient env (ForOIDCToken ctx) = Inr c0" and
    got: "GetApplication env c0 (ReqAppNamespace req) (APPName req) = Inr obj" and
    conv: "FromUnstructured env obj = Inr app" and
    ready: "IsReady env app"
    by (auto simp: AppRun_def Let_def split: sum.splits if_splits)
  obtain rc cs1 calls1 where res: "AppRun_conversation env ctx req cs = (rc, cs1, calls1)"
    by (cases "AppRun_conversation env ctx req cs") auto
  from AppRun_conversation_calls [OF res] have norun: "RunCall appRun rctx c inp \<notin> set calls1"
    by auto
  from run called client got conv ready res norun obtain conversation history where
    rc: "rc = Return (Inr (conversation, history))"
    by (auto simp: AppRun_def Let_def split: sum.splits outcome.splits)
  obtain r2 cs2 calls2 where rest:
    "AppRun_run env ctx req messageID c0 app conversation history
       (if NewChat req then 2 else 0) cs1 = (r2, cs2, calls2)"
    by (cases "AppRun_run env ctx req messageID c0 app conversation history
       (if NewChat req then 2 else 0) cs1") auto
  from run client got conv ready res rc rest
  have eqs: "r = r2" "cs' = cs2" "calls = calls1 @ calls2"
    by (auto simp: AppRun_def Let_def)
  with called norun have "RunCall appRun rctx c inp \<in> set calls2" by simp
  from AppRun_run_RunCall [OF rest this] res rc rest eqs show ?thesis by blast
qed

lemma AppRun_UpdateCall:
  assumes run: "AppRun env ctx req messageID cs = (r, cs', calls)"
    and called: "UpdateConversationCall conv \<in> set calls"
  shows "\<exists>c app appRun out conversation history cs1 calls1.
      AppRun_conversation env ctx req cs = (Return (Inr (conversation, history)), cs1, calls1) \<and>
      NewAppOrGetFromCache env (SetAppNamespace ctx (ReqAppNamespace req)) c app = Inr appRun \<and>
      Run env appRun (SetAppNamespace ctx (ReqAppNamespace req)) c
           \<lparr>Question = ReqQuery req, NeedStream = IsStreaming (ReqResponseMode req),
            History = history\<rparr> = Inr out \<and>
      conv = appended conversation messageID req out (if NewChat req then 2 else 0) env \<and>
      RunCall appRun (SetAppNamespace ctx (ReqAppNamespace req)) c
           \<lparr>Question = ReqQuery req, NeedStream = IsStreaming (ReqResponseMode req),
            History = history\<rparr> \<in> set calls"
proof -
  from run called obtain c0 obj app where
    client: "GetClient env (ForOIDCToken ctx) = Inr c0" and
    got: "GetApplication env c0 (ReqAppNamespace req) (APPName req) = Inr obj" and
    conv: "FromUnstructured env obj = Inr app" and
    ready: "IsReady env app"
    by (auto simp: AppRun_def Let_def split: sum.splits if_splits)
  obtain rc cs1 calls1 where res: "AppRun_conversation env ctx req cs = (rc, cs1, calls1)"
    by (cases "AppRun_conversation env ctx req cs") auto
  from AppRun_conversation_calls [OF res] have noupd: "UpdateConversationCall conv \<notin> set calls1"
    by auto
  from run called client got conv ready res noupd obtain conversation history where
    rc: "rc = Return (Inr (conversation, history))"
    by (auto simp: AppRun_def Let_def split: sum.splits outcome.splits)
  obtain r2 cs2 calls2 where rest:
    "AppRun_run env ctx req messageID c0 app conversation history
       (if NewChat req then 2 else 0) cs1 = (r2, cs2, calls2)"
    by (cases "AppRun_run env ctx req messageID c0 app conversation history
       (if NewChat req then 2 else 0) cs1") auto
  from run client got conv ready res rc rest
  have eqs: "r = r2" "cs' = cs2" "calls = calls1 @ calls2"
    by (auto simp: AppRun_def Let_def)
  with called noupd have upd: "UpdateConversationCall conv \<in> set calls2" by simp
  from AppRun_run_Update [OF rest upd] obtain appRun out where
    runner: "NewAppOrGetFromCache env (SetAppNamespace ctx (ReqAppNamespace req)) c0 app
            = Inr appRun" and
    out: "Run env appRun (SetAppNamespace ctx (ReqAppNamespace req)) c0
           \<lparr>Question = ReqQuery req, NeedStream = IsStreaming (ReqResponseMode req),
            History = history\<rparr> = Inr out" and
    cv: "conv = appended conversation messageID req out (if NewChat req then 2 else 0) env"
    by blast
  from rest AppRun_run_success [OF runner out, of messageID conversation
      "if NewChat req then 2 else 0" cs1]
  have "RunCall appRun (SetAppNamespace ctx (ReqAppNamespace req)) c0
           \<lparr>Question = ReqQuery req, NeedStream = IsStreaming (ReqResponseMode req),
            History = history\<rparr> \<in> set calls2"
    by (auto split: prod.splits option.splits outcome.splits)
  with eqs have "RunCall appRun (SetAppNamespace ctx (ReqAppNamespace req)) c0
           \<lparr>Question = ReqQuery req, NeedStream = IsStreaming (ReqResponseMode req),
            History = history\<rparr> \<in> set calls" by simp
  with res rc runner out cv show ?thesis by blast
qed

section \<open>Concrete turns\<close>

lemmas demo_defs = demoEnv_def aliceCtx_def newChatReq_def continueReq_def failingReq_def
  failingNewReq_def unknownReq_def listReq_def runCtx_def readyServer_def emptyServer_def
  storedConversation_def pendingMessage_def firstMessage_def demoOutput_def
  newConversation_def

lemmas run_defs = AppRun_def AppRun_conversation_def AppRun_run_def AppRun_search_def
  Storage_def ForOIDCToken_def currentUser_def SetAppNamespace_def IsStreaming_def
  NewChatMessageHistory_def AddUserMessage_def AddAIMessage_def Let_def

lemmas memory_defs = memory_FindExistingConversation_def memory_FindExistingMessage_def
  memory_ListConversations_def memory_UpdateConversation_def memory_Delete_def
  options_hold_def ErrConversationNotFound_def ErrMessageNotFound_def

lemma demo_prelude:
  "GetClient demoEnv (ForOIDCToken aliceCtx) = Inr (DynamicClient ''token-alice'')"
  "GetApplication demoEnv (DynamicClient ''token-alice'') ''arcadia'' ''kubeagi''
     = Inr (Unstructured ''kubeagi'')"
  "FromUnstructured demoEnv (Unstructured ''kubeagi'') = Inr (Application ''kubeagi'')"
  "IsReady demoEnv (Application ''kubeagi'')"
  "NewAppOrGetFromCache demoEnv runCtx (DynamicClient ''token-alice'')
     (Application ''kubeagi'') = Inr (AppRunner ''kubeagi-runner'')"
  by (simp_all add: demoEnv_def ForOIDCToken_def aliceCtx_def)

lemma demo_selected:
  "Storage demoEnv readyServer = (Return (Some [storedConversation]), readyServer)"
  "Storage demoEnv emptyServer = (Return (Some []), emptyServer)"
  by (simp_all add: Storage_def readyServer_def emptyServer_def)

lemma demo_new_chat:
  "AppRun demoEnv aliceCtx newChatReq ''msg-1'' emptyServer =
     (Return (Inr \<lparr>RespConversationID = ''conv-1'', RespMessageID = ''msg-1'',
                   RespMessage = ''KubeAGI is an orchestrator'', RespCreatedAt = 1003,
                   RespReferences = Some [Reference ''README'']\<rparr>),
      \<lparr>storage = Some [newConversation], once = True\<rparr>,
      [RunCall (AppRunner ''kubeagi-runner'') runCtx (DynamicClient ''token-alice'')
         \<lparr>Question = ''What is KubeAGI?'', NeedStream = False, History = []\<rparr>,
       UpdateConversationCall newConversation])"
  by (simp add: run_defs demo_defs memory_defs)

lemma demo_failed_new_chat:
  "AppRun demoEnv aliceCtx failingNewReq ''msg-1'' emptyServer =
     (Return (Inl (New ''llm call failed'')), emptyServer,
      [RunCall (AppRunner ''kubeagi-runner'') runCtx (DynamicClient ''token-alice'')
         \<lparr>Question = ''And then?'', NeedStream = False, History = []\<rparr>])"
  by (simp add: run_defs demo_defs memory_defs)

lemma demo_failed_turn:
  "AppRun demoEnv aliceCtx failingReq ''msg-2'' readyServer =
     (Return (Inl (New ''llm call failed'')), readyServer,
      [FindExistingConversationCall ''conv-1''
         [WithAppName ''kubeagi'', WithAppNamespace ''arcadia'', WithDebug False,
          WithUser ''alice''],
       RunCall (AppRunner ''kubeagi-runner'') runCtx (DynamicClient ''token-alice'')
         \<lparr>Question = ''And then?'', NeedStream = False,
          History = [HumanChatMessage ''Hello?'', AIChatMessage [],
                     HumanChatMessage ''What is KubeAGI?'',
                     AIChatMessage ''KubeAGI is an orchestrator'']\<rparr>])"
  by (simp add: run_defs demo_defs memory_defs)

lemma demo_continued_turn:
  "AppRun demoEnv aliceCtx continueReq ''msg-2'' readyServer =
     (Return (Inr \<lparr>RespConversationID = ''conv-1'', RespMessageID = ''msg-2'',
                   RespMessage = ''KubeAGI is an orchestrator'', RespCreatedAt = 1001,
                   RespReferences = Some [Reference ''README'']\<rparr>),
      \<lparr>storage = Some [continuedConversation], once = True\<rparr>,
      [FindExistingConversationCall ''conv-1''
         [WithAppName ''kubeagi'', WithAppNamespace ''arcadia'', WithDebug False,
          WithUser ''alice''],
       RunCall (AppRunner ''kubeagi-runner'') runCtx (DynamicClient ''token-alice'')
         \<lparr>Question = ''What is KubeAGI?'', NeedStream = False,
          History = [HumanChatMessage ''Hello?'', AIChatMessage [],
                     HumanChatMessage ''What is KubeAGI?'',
                     AIChatMessage ''KubeAGI is an orchestrator'']\<rparr>,
       UpdateConversationCall continuedConversation])"
  by (simp add: run_defs demo_defs memory_defs continuedConversation_def)

lemma demo_unknown_conversation:
  "AppRun demoEnv aliceCtx unknownReq ''msg-2'' readyServer =
     (Return (Inl (New ''conversation is not found'')), readyServer,
      [FindExistingConversationCall ''conv-404''
         [WithAppName ''kubeagi'', WithAppNamespace ''arcadia'', WithDebug False,
          WithUser ''alice'']])"
  by (simp add: run_defs demo_defs memory_defs)

lemma demo_listing:
  "ListMessages demoEnv aliceCtx listReq readyServer =
     (Return (Inr storedConversation), readyServer,
      [FindExistingConversationCall ''conv-1''
        [WithAppNamespace ''arcadia'', WithAppName ''kubeagi'', WithAppNamespace ''arcadia'',
         WithUser ''alice'']])"
  by (simp add: ListMessages_def Storage_def currentUser_def Let_def demo_defs memory_defs)

lemma demo_find_pending:
  "FindExistingMessage demoEnv [storedConversation] ''conv-1'' ''msg-0''
     [WithAppNamespace ''arcadia'', WithAppName ''kubeagi'', WithAppNamespace ''arcadia'',
      WithUser ''alice''] = (Some pendingMessage, None)"
  by (simp add: demoEnv_def memory_FindExistingMessage_def memory_FindExistingConversation_def
      options_hold_def storedConversation_def pendingMessage_def firstMessage_def)

section \<open>Properties of a chat turn\<close>

text \<open>
  C1: a new chat on a ready application, with the runner fetched and answering and the
  backend accepting the update, builds a conversation with exactly one message (the supplied
  message ID, the request's query, the runner's answer and references), hands it to
  \<open>UpdateConversation\<close> and returns the conversation's ID, the supplied message ID and the
  runner's answer and references.
\<close>

theorem AppRun_new_chat:
  fixes env :: "'b Env" and ctx :: Ctx and req :: ChatReqBody and messageID :: string
    and out :: Output and conv :: Conversation
  defines "conv \<equiv>
     \<lparr>ID = ConversationID req, AppName = APPName req, AppNamespace = ReqAppNamespace req,
      StartedAt = Now env 0, UpdatedAt = Now env 2,
      Messages = [\<lparr>MsgID = messageID, Query = ReqQuery req, Answer = OutAnswer out,
                   References = OutReferences out\<rparr>],
      User = currentUser ctx, Debug = ReqDebug req\<rparr>"
  assumes new: "NewChat req"
    and client: "GetClient env (ForOIDCToken ctx) = Inr c"
    and got: "GetApplication env c (ReqAppNamespace req) (APPName req) = Inr obj"
    and converted: "FromUnstructured env obj = Inr app"
    and ready: "IsReady env app"
    and runner: "NewAppOrGetFromCache env (SetAppNamespace ctx (ReqAppNamespace req)) c app
                   = Inr appRun"
    and out: "Run env appRun (SetAppNamespace ctx (ReqAppNamespace req)) c
                \<lparr>Question = ReqQuery req, NeedStream = IsStreaming (ReqResponseMode req),
                 History = []\<rparr> = Inr out"
    and sel: "Storage env cs = (Return (Some b), cs1)"
    and stored: "UpdateConversation env b conv = (b', None)"
  shows "AppRun env ctx req messageID cs =
          (Return (Inr \<lparr>RespConversationID = ID conv, RespMessageID = messageID,
                        RespMessage = OutAnswer out, RespCreatedAt = Now env 3,
                        RespReferences = OutReferences out\<rparr>),
           cs1\<lparr>storage := Some b'\<rparr>,
           [RunCall appRun (SetAppNamespace ctx (ReqAppNamespace req)) c
              \<lparr>Question = ReqQuery req, NeedStream = IsStreaming (ReqResponseMode req),
               History = []\<rparr>,
            UpdateConversationCall conv])"
proof -
  have conv: "appended \<lparr>ID = ConversationID req, AppName = APPName req,
                    AppNamespace = ReqAppNamespace req, StartedAt = Now env 0,
                    UpdatedAt = Now env 1, Messages = [], User = currentUser ctx,
                    Debug = ReqDebug req\<rparr> messageID req out 2 env = conv"
    by (simp add: appended_def conv_def)
  show ?thesis
    using client got converted ready new sel stored
    by (simp add: AppRun_def AppRun_conversation_new [OF new]
        AppRun_run_success [OF runner out] conv del: One_nat_def) (simp add: conv_def)
qed

theorem AppRun_new_chat_witness:
  "NewChat newChatReq
   \<and> IsReady demoEnv (Application ''kubeagi'')
   \<and> Run demoEnv (AppRunner ''kubeagi-runner'') runCtx (DynamicClient ''token-alice'')
        \<lparr>Question = ''What is KubeAGI?'', NeedStream = False, History = []\<rparr> = Inr demoOutput
   \<and> Storage demoEnv emptyServer = (Return (Some []), emptyServer)
   \<and> UpdateConversation demoEnv [] newConversation = ([newConversation], None)
   \<and> Messages newConversation =
        [\<lparr>MsgID = ''msg-1'', Query = ''What is KubeAGI?'', Answer = OutAnswer demoOutput,
          References = OutReferences demoOutput\<rparr>]
   \<and> AppRun demoEnv aliceCtx newChatReq ''msg-1'' emptyServer =
       (Return (Inr \<lparr>RespConversationID = ID newConversation, RespMessageID = ''msg-1'',
                     RespMessage = OutAnswer demoOutput, RespCreatedAt = 1003,
                     RespReferences = OutReferences demoOutput\<rparr>),
        \<lparr>storage = Some [newConversation], once = True\<rparr>,
        [RunCall (AppRunner ''kubeagi-runner'') runCtx (DynamicClient ''token-alice'')
           \<lparr>Question = ''What is KubeAGI?'', NeedStream = False, History = []\<rparr>,
         UpdateConversationCall newConversation])"
proof -
  have new: "NewChat newChatReq" by (simp add: newChatReq_def)
  have client: "GetClient demoEnv (ForOIDCToken aliceCtx) = Inr (DynamicClient ''token-alice'')"
    by (rule demo_prelude)
  have got: "GetApplication demoEnv (DynamicClient ''token-alice'') (ReqAppNamespace newChatReq)
      (APPName newChatReq) = Inr (Unstructured ''kubeagi'')"
    using demo_prelude(2) by (simp add: newChatReq_def)
  have converted: "FromUnstructured demoEnv (Unstructured ''kubeagi'')
      = Inr (Application ''kubeagi'')"
    by (rule demo_prelude)
  have ready: "IsReady demoEnv (Application ''kubeagi'')" by (rule demo_prelude)
  have runner: "NewAppOrGetFromCache demoEnv
      (SetAppNamespace aliceCtx (ReqAppNamespace newChatReq)) (DynamicClient ''token-alice'')
      (Application ''kubeagi'') = Inr (AppRunner ''kubeagi-runner'')"
    by (simp add: demoEnv_def)
  have out: "Run demoEnv (AppRunner ''kubeagi-runner'')
      (SetAppNamespace aliceCtx (ReqAppNamespace newChatReq)) (DynamicClient ''token-alice'')
      \<lparr>Question = ReqQuery newChatReq, NeedStream = IsStreaming (ReqResponseMode newChatReq),
       History = []\<rparr> = Inr demoOutput"
    by (simp add: demoEnv_def newChatReq_def)
  have sel: "Storage demoEnv emptyServer = (Return (Some []), emptyServer)"
    by (rule demo_selected)
  have stored: "UpdateConversation demoEnv []
      \<lparr>ID = ConversationID newChatReq, AppName = APPName newChatReq,
       AppNamespace = ReqAppNamespace newChatReq, StartedAt = Now demoEnv 0,
       UpdatedAt = Now demoEnv 2,
       Messages = [\<lparr>MsgID = ''msg-1'', Query = ReqQuery newChatReq,
                    Answer = OutAnswer demoOutput, References = OutReferences demoOutput\<rparr>],
       User = currentUser aliceCtx, Debug = ReqDebug newChatReq\<rparr>
      = ([newConversation], None)"
    by (simp add: demo_defs memory_defs currentUser_def)
  have turn: "AppRun demoEnv aliceCtx newChatReq ''msg-1'' emptyServer =
       (Return (Inr \<lparr>RespConversationID = ID newConversation, RespMessageID = ''msg-1'',
                     RespMessage = OutAnswer demoOutput, RespCreatedAt = 1003,
                     RespReferences = OutReferences demoOutput\<rparr>),
        \<lparr>storage = Some [newConversation], once = True\<rparr>,
        [RunCall (AppRunner ''kubeagi-runner'') runCtx (DynamicClient ''token-alice'')
           \<lparr>Question = ''What is KubeAGI?'', NeedStream = False, History = []\<rparr>,
         UpdateConversationCall newConversation])"
    using AppRun_new_chat [OF new client got converted ready runner out sel stored]
    by (simp add: demo_defs SetAppNamespace_def IsStreaming_def currentUser_def)
  have run: "Run demoEnv (AppRunner ''kubeagi-runner'') runCtx (DynamicClient ''token-alice'')
        \<lparr>Question = ''What is KubeAGI?'', NeedStream = False, History = []\<rparr> = Inr demoOutput"
    by (simp add: demoEnv_def)
  have upd: "UpdateConversation demoEnv [] newConversation = ([newConversation], None)"
    by (simp add: demoEnv_def memory_defs)
  have msgs: "Messages newConversation =
        [\<lparr>MsgID = ''msg-1'', Query = ''What is KubeAGI?'', Answer = OutAnswer demoOutput,
          References = OutReferences demoOutput\<rparr>]"
    by (simp add: newConversation_def firstMessage_def demoOutput_def)
  from new ready run sel upd msgs turn show ?thesis by blast
qed

text \<open>
  C2: when the runner, called by \<open>AppRun\<close>, returns an error, \<open>AppRun\<close> returns that error and
  calls neither \<open>UpdateConversation\<close> nor \<open>Delete\<close>; the server is left as the selection of
  the backend leaves it, and unchanged when a backend was already selected.
\<close>

theorem AppRun_runner_error:
  assumes run: "AppRun env ctx req messageID cs = (r, cs', calls)"
    and called: "RunCall appRun rctx c inp \<in> set calls"
    and failed: "Run env appRun rctx c inp = Inl err"
  shows "r = Return (Inl err)
       \<and> (\<forall>conv. UpdateConversationCall conv \<notin> set calls)
       \<and> (\<forall>opts. DeleteCall opts \<notin> set calls)
       \<and> cs' = (if NewChat req then cs else snd (Storage env cs))
       \<and> (storage cs \<noteq> None \<longrightarrow> cs' = cs)"
proof -
  from AppRun_RunCall [OF run called] obtain app conversation history cs1 calls1 calls2 where
    res: "AppRun_conversation env ctx req cs = (Return (Inr (conversation, history)), cs1, calls1)"
    and rest: "AppRun_run env ctx req messageID c app conversation history
         (if NewChat req then 2 else 0) cs1 = (r, cs', calls2)"
    and calls: "calls = calls1 @ calls2"
    and rctx: "rctx = SetAppNamespace ctx (ReqAppNamespace req)"
    and runner: "NewAppOrGetFromCache env rctx c app = Inr appRun"
    and inp: "inp = \<lparr>Question = ReqQuery req, NeedStream = IsStreaming (ReqResponseMode req),
             History = history\<rparr>"
    by blast
  from AppRun_run_failure [OF runner [unfolded rctx] failed [unfolded rctx inp],
      of messageID conversation "if NewChat req then 2 else 0" cs1] rest
  have r: "r = Return (Inl err)" and cs': "cs' = cs1"
    and calls2: "calls2 = [RunCall appRun rctx c inp]"
    by (simp_all add: rctx inp)
  from AppRun_conversation_calls [OF res] calls calls2
  have noupd: "\<forall>conv. UpdateConversationCall conv \<notin> set calls"
    and nodel: "\<forall>opts. DeleteCall opts \<notin> set calls"
    by auto
  from AppRun_conversation_server [OF res] cs'
  have server: "cs' = (if NewChat req then cs else snd (Storage env cs))" by simp
  have "storage cs \<noteq> None \<longrightarrow> cs' = cs"
    using server by (auto simp: Storage_def)
  with r noupd nodel server show ?thesis by blast
qed

theorem AppRun_runner_error_witness:
  "Run demoEnv (AppRunner ''kubeagi-runner'') runCtx (DynamicClient ''token-alice'')
      \<lparr>Question = ''And then?'', NeedStream = False,
       History = [HumanChatMessage ''Hello?'', AIChatMessage [],
                  HumanChatMessage ''What is KubeAGI?'',
                  AIChatMessage ''KubeAGI is an orchestrator'']\<rparr> = Inl (New ''llm call failed'')
   \<and> fst (AppRun demoEnv aliceCtx failingReq ''msg-2'' readyServer)
        = Return (Inl (New ''llm call failed''))
   \<and> (\<forall>conv. UpdateConversationCall conv \<notin>
          set (snd (snd (AppRun demoEnv aliceCtx failingReq ''msg-2'' readyServer))))
   \<and> fst (snd (AppRun demoEnv aliceCtx failingReq ''msg-2'' readyServer)) = readyServer"
proof -
  have failed: "Run demoEnv (AppRunner ''kubeagi-runner'') runCtx (DynamicClient ''token-alice'')
      \<lparr>Question = ''And then?'', NeedStream = False,
       History = [HumanChatMessage ''Hello?'', AIChatMessage [],
                  HumanChatMessage ''What is KubeAGI?'',
                  AIChatMessage ''KubeAGI is an orchestrator'']\<rparr> = Inl (New ''llm call failed'')"
    by (simp add: demoEnv_def)
  have sel: "storage readyServer \<noteq> None" by (simp add: readyServer_def)
  from AppRun_runner_error [OF demo_failed_turn _ failed] sel failed
  show ?thesis by (simp add: demo_failed_turn)
qed

text \<open>
  C3, as the spec has it (a failed turn leaves an empty-answer message recorded, which a
  later listing shows): after a new chat whose runner fails, the conversation is not stored
  at all and both listings come back empty-handed.
\<close>

theorem failed_new_chat_not_listed:
  "fst (AppRun demoEnv aliceCtx failingNewReq ''msg-1'' emptyServer)
      = Return (Inl (New ''llm call failed''))
   \<and> fst (ListMessages demoEnv aliceCtx listReq
            (fst (snd (AppRun demoEnv aliceCtx failingNewReq ''msg-1'' emptyServer))))
      = Return (Inl (New ''conversation is not found''))
   \<and> fst (ListConversations demoEnv aliceCtx listReq
            (fst (snd (AppRun demoEnv aliceCtx failingNewReq ''msg-1'' emptyServer))))
      = Return ([], None)"
  by (simp add: demo_failed_new_chat)
    (simp add: ListMessages_def ListConversations_def Storage_def currentUser_def Let_def
      demo_defs memory_defs)

text \<open>
  C3, amended: the new message is appended to the conversation that the turn holds, and
  reaches the repository only with the \<open>UpdateConversation\<close> that follows a successful run,
  as the last message and with the runner's answer and references. When the runner fails
  there is no \<open>UpdateConversation\<close>, and a later listing returns what it returned before the
  turn.
\<close>

theorem AppRun_message_recorded_on_success_only:
  assumes run: "AppRun env ctx req messageID cs = (r, cs', calls)"
  shows "(\<forall>conv. UpdateConversationCall conv \<in> set calls \<longrightarrow>
            (\<exists>prior appRun rctx c inp out.
               RunCall appRun rctx c inp \<in> set calls \<and>
               Run env appRun rctx c inp = Inr out \<and>
               Messages conv = prior @
                 [\<lparr>MsgID = messageID, Query = ReqQuery req, Answer = OutAnswer out,
                   References = OutReferences out\<rparr>]))
       \<and> (RunCall appRun rctx c inp \<in> set calls \<and> Run env appRun rctx c inp = Inl err \<longrightarrow>
            (\<forall>conv. UpdateConversationCall conv \<notin> set calls) \<and>
            ListMessages env lctx lreq cs' = ListMessages env lctx lreq cs \<and>
            ListConversations env lctx areq cs' = ListConversations env lctx areq cs)"
proof -
  have success: "\<forall>conv. UpdateConversationCall conv \<in> set calls \<longrightarrow>
            (\<exists>prior appRun rctx c inp out.
               RunCall appRun rctx c inp \<in> set calls \<and>
               Run env appRun rctx c inp = Inr out \<and>
               Messages conv = prior @
                 [\<lparr>MsgID = messageID, Query = ReqQuery req, Answer = OutAnswer out,
                   References = OutReferences out\<rparr>])"
  proof (intro allI impI)
    fix conv assume "UpdateConversationCall conv \<in> set calls"
    from AppRun_UpdateCall [OF run this] obtain c app appRun out conversation history where
      out: "Run env appRun (SetAppNamespace ctx (ReqAppNamespace req)) c
           \<lparr>Question = ReqQuery req, NeedStream = IsStreaming (ReqResponseMode req),
            History = history\<rparr> = Inr out" and
      conv: "conv = appended conversation messageID req out (if NewChat req then 2 else 0) env"
      and inset: "RunCall appRun (SetAppNamespace ctx (ReqAppNamespace req)) c
           \<lparr>Question = ReqQuery req, NeedStream = IsStreaming (ReqResponseMode req),
            History = history\<rparr> \<in> set calls"
      by blast
    from conv have "Messages conv = Messages conversation @
        [\<lparr>MsgID = messageID, Query = ReqQuery req, Answer = OutAnswer out,
          References = OutReferences out\<rparr>]"
      by (simp add: appended_def)
    with out inset show "\<exists>prior appRun rctx c inp out.
               RunCall appRun rctx c inp \<in> set calls \<and>
               Run env appRun rctx c inp = Inr out \<and>
               Messages conv = prior @
                 [\<lparr>MsgID = messageID, Query = ReqQuery req, Answer = OutAnswer out,
                   References = OutReferences out\<rparr>]"
      by blast
  qed
  have failure: "RunCall appRun rctx c inp \<in> set calls \<and> Run env appRun rctx c inp = Inl err \<longrightarrow>
            (\<forall>conv. UpdateConversationCall conv \<notin> set calls) \<and>
            ListMessages env lctx lreq cs' = ListMessages env lctx lreq cs \<and>
            ListConversations env lctx areq cs' = ListConversations env lctx areq cs"
  proof
    assume h: "RunCall appRun rctx c inp \<in> set calls \<and> Run env appRun rctx c inp = Inl err"
    then have called: "RunCall appRun rctx c inp \<in> set calls"
      and failed: "Run env appRun rctx c inp = Inl err" by simp_all
    from AppRun_RunCall [OF run called] obtain app conversation history cs1 calls1 calls2 where
      res: "AppRun_conversation env ctx req cs = (Return (Inr (conversation, history)), cs1, calls1)"
      and rest: "AppRun_run env ctx req messageID c app conversation history
         (if NewChat req then 2 else 0) cs1 = (r, cs', calls2)"
      and calls: "calls = calls1 @ calls2"
      and rctx: "rctx = SetAppNamespace ctx (ReqAppNamespace req)"
      and runner: "NewAppOrGetFromCache env rctx c app = Inr appRun"
      and inp: "inp = \<lparr>Question = ReqQuery req, NeedStream = IsStreaming (ReqResponseMode req),
             History = history\<rparr>"
      by blast
    from AppRun_run_failure [OF runner [unfolded rctx] failed [unfolded rctx inp],
      of messageID conversation "if NewChat req then 2 else 0" cs1] rest
    have cs': "cs' = cs1" and calls2: "calls2 = [RunCall appRun rctx c inp]"
      by (simp_all add: rctx inp)
    from AppRun_conversation_calls [OF res] calls calls2
    have noupd: "\<forall>conv. UpdateConversationCall conv \<notin> set calls" by auto
    have same: "ListMessages env lctx lreq cs' = ListMessages env lctx lreq cs \<and>
            ListConversations env lctx areq cs' = ListConversations env lctx areq cs"
    proof (cases "NewChat req")
      case True
      with AppRun_conversation_Return [OF res] cs' show ?thesis by auto
    next
      case False
      with AppRun_conversation_Return [OF res] obtain b where
        "Storage env cs = (Return (Some b), cs1)" by auto
      from ListMessages_after_selection [OF this, of lctx lreq]
        ListConversations_after_selection [OF this, of lctx areq] cs'
      show ?thesis by simp
    qed
    with noupd show "(\<forall>conv. UpdateConversationCall conv \<notin> set calls) \<and>
            ListMessages env lctx lreq cs' = ListMessages env lctx lreq cs \<and>
            ListConversations env lctx areq cs' = ListConversations env lctx areq cs"
      by blast
  qed
  from success failure show ?thesis by blast
qed

theorem AppRun_message_recorded_on_success_only_witness:
  "Run demoEnv (AppRunner ''kubeagi-runner'') runCtx (DynamicClient ''token-alice'')
      \<lparr>Question = ''And then?'', NeedStream = False,
       History = [HumanChatMessage ''Hello?'', AIChatMessage [],
                  HumanChatMessage ''What is KubeAGI?'',
                  AIChatMessage ''KubeAGI is an orchestrator'']\<rparr> = Inl (New ''llm call failed'')
   \<and> Messages storedConversation = [pendingMessage, firstMessage]
   \<and> fst (ListMessages demoEnv aliceCtx listReq
            (fst (snd (AppRun demoEnv aliceCtx failingReq ''msg-2'' readyServer))))
      = Return (Inr storedConversation)"
proof -
  have failed: "Run demoEnv (AppRunner ''kubeagi-runner'') runCtx (DynamicClient ''token-alice'')
      \<lparr>Question = ''And then?'', NeedStream = False,
       History = [HumanChatMessage ''Hello?'', AIChatMessage [],
                  HumanChatMessage ''What is KubeAGI?'',
                  AIChatMessage ''KubeAGI is an orchestrator'']\<rparr> = Inl (New ''llm call failed'')"
    by (simp add: demoEnv_def)
  let ?after = "fst (snd (AppRun demoEnv aliceCtx failingReq ''msg-2'' readyServer))"
  have run: "AppRun demoEnv aliceCtx failingReq ''msg-2'' readyServer =
      (Return (Inl (New ''llm call failed'')), ?after,
       [FindExistingConversationCall ''conv-1''
         [WithAppName ''kubeagi'', WithAppNamespace ''arcadia'', WithDebug False,
          WithUser ''alice''],
       RunCall (AppRunner ''kubeagi-runner'') runCtx (DynamicClient ''token-alice'')
         \<lparr>Question = ''And then?'', NeedStream = False,
          History = [HumanChatMessage ''Hello?'', AIChatMessage [],
                     HumanChatMessage ''What is KubeAGI?'',
                     AIChatMessage ''KubeAGI is an orchestrator'']\<rparr>])"
    by (simp add: demo_failed_turn)
  from AppRun_message_recorded_on_success_only [where lctx = aliceCtx and lreq = listReq
      and areq = listReq and appRun = "AppRunner ''kubeagi-runner''" and rctx = runCtx
      and c = "DynamicClient ''token-alice''" and err = "New ''llm call failed''"
      and inp = "\<lparr>Question = ''And then?'', NeedStream = False,
          History = [HumanChatMessage ''Hello?'', AIChatMessage [],
                     HumanChatMessage ''What is KubeAGI?'',
                     AIChatMessage ''KubeAGI is an orchestrator'']\<rparr>", OF run] failed
  have "ListMessages demoEnv aliceCtx listReq ?after
          = ListMessages demoEnv aliceCtx listReq readyServer"
    by simp
  then have "fst (ListMessages demoEnv aliceCtx listReq ?after) = Return (Inr storedConversation)"
    by (simp add: demo_listing)
  moreover have "Messages storedConversation = [pendingMessage, firstMessage]"
    by (simp add: storedConversation_def)
  ultimately show ?thesis using failed by blast
qed

text \<open>
  C4: when the application cannot be fetched, or is fetched and is not ready, \<open>AppRun\<close>
  returns the error at once: the server is left as it was (the backend is not even selected)
  and no call is made on the backend or the runner.
\<close>

theorem AppRun_application_unavailable:
  assumes client: "GetClient env (ForOIDCToken ctx) = Inr c"
    and unavailable:
      "(\<exists>e. GetApplication env c (ReqAppNamespace req) (APPName req) = Inl e) \<or>
       (\<exists>obj app. GetApplication env c (ReqAppNamespace req) (APPName req) = Inr obj \<and>
           FromUnstructured env obj = Inr app \<and> \<not> IsReady env app)"
  shows "AppRun env ctx req messageID cs =
           (Return (Inl (case GetApplication env c (ReqAppNamespace req) (APPName req) of
                           Inl e \<Rightarrow> Errorf ''failed to get application'' e
                         | Inr obj \<Rightarrow> New ''application is not ready'')),
            cs, [])"
  using unavailable
proof
  assume "\<exists>e. GetApplication env c (ReqAppNamespace req) (APPName req) = Inl e"
  then obtain e where "GetApplication env c (ReqAppNamespace req) (APPName req) = Inl e" ..
  with client show ?thesis by (simp add: AppRun_def)
next
  assume "\<exists>obj app. GetApplication env c (ReqAppNamespace req) (APPName req) = Inr obj \<and>
           FromUnstructured env obj = Inr app \<and> \<not> IsReady env app"
  then obtain obj app where
    "GetApplication env c (ReqAppNamespace req) (APPName req) = Inr obj"
    "FromUnstructured env obj = Inr app" "\<not> IsReady env app" by blast
  with client show ?thesis by (simp add: AppRun_def)
qed

theorem AppRun_application_unavailable_witness:
  "GetClient demoEnv (ForOIDCToken aliceCtx) = Inr (DynamicClient ''token-alice'')
   \<and> GetApplication demoEnv (DynamicClient ''token-alice'') (ReqAppNamespace draftReq)
        (APPName draftReq) = Inr (Unstructured ''draft'')
   \<and> FromUnstructured demoEnv (Unstructured ''draft'') = Inr (Application ''draft'')
   \<and> \<not> IsReady demoEnv (Application ''draft'')
   \<and> AppRun demoEnv aliceCtx draftReq ''msg-9'' readyServer =
        (Return (Inl (New ''application is not ready'')), readyServer, [])"
proof -
  have client: "GetClient demoEnv (ForOIDCToken aliceCtx) = Inr (DynamicClient ''token-alice'')"
    by (simp add: demoEnv_def ForOIDCToken_def aliceCtx_def)
  have app: "GetApplication demoEnv (DynamicClient ''token-alice'') (ReqAppNamespace draftReq)
        (APPName draftReq) = Inr (Unstructured ''draft'')"
    by (simp add: demoEnv_def draftReq_def)
  have conv: "FromUnstructured demoEnv (Unstructured ''draft'') = Inr (Application ''draft'')"
    by (simp add: demoEnv_def)
  have unready: "\<not> IsReady demoEnv (Application ''draft'')"
    by (simp add: demoEnv_def)
  have "(\<exists>e. GetApplication demoEnv (DynamicClient ''token-alice'') (ReqAppNamespace draftReq)
            (APPName draftReq) = Inl e) \<or>
       (\<exists>obj app. GetApplication demoEnv (DynamicClient ''token-alice'')
            (ReqAppNamespace draftReq) (APPName draftReq) = Inr obj \<and>
           FromUnstructured demoEnv obj = Inr app \<and> \<not> IsReady demoEnv app)"
    using app conv unready by blast
  from AppRun_application_unavailable [OF client this, of "''msg-9''" readyServer]
  show ?thesis using client app conv unready by simp
qed

text \<open>
  C7: a continuing chat on a ready application looks the conversation up by the request's
  conversation ID with the options application name, namespace and debug flag, and the user
  exactly when the context's user name is not empty; the lookup is the first call, and when
  it returns an error \<open>AppRun\<close> returns that error with no further call (the runner is not
  run).
\<close>

theorem AppRun_continuing_lookup:
  assumes old: "\<not> NewChat req"
    and client: "GetClient env (ForOIDCToken ctx) = Inr c"
    and got: "GetApplication env c (ReqAppNamespace req) (APPName req) = Inr obj"
    and converted: "FromUnstructured env obj = Inr app"
    and ready: "IsReady env app"
    and sel: "Storage env cs = (Return (Some b), cs1)"
  shows "AppRun_search ctx req =
           [WithAppName (APPName req), WithAppNamespace (ReqAppNamespace req),
            WithDebug (ReqDebug req)] @
           (if currentUser ctx \<noteq> [] then [WithUser (currentUser ctx)] else [])
       \<and> (\<exists>rest. snd (snd (AppRun env ctx req messageID cs)) =
             FindExistingConversationCall (ConversationID req) (AppRun_search ctx req) # rest)
       \<and> (\<forall>found err.
             FindExistingConversation env b (ConversationID req) (AppRun_search ctx req)
               = (found, Some err) \<longrightarrow>
             AppRun env ctx req messageID cs =
               (Return (Inl err), cs1,
                [FindExistingConversationCall (ConversationID req) (AppRun_search ctx req)]))"
proof -
  have search: "AppRun_search ctx req =
           [WithAppName (APPName req), WithAppNamespace (ReqAppNamespace req),
            WithDebug (ReqDebug req)] @
           (if currentUser ctx \<noteq> [] then [WithUser (currentUser ctx)] else [])"
    by (simp add: AppRun_search_def)
  have first: "\<exists>rest. snd (snd (AppRun env ctx req messageID cs)) =
             FindExistingConversationCall (ConversationID req) (AppRun_search ctx req) # rest"
    using client got converted ready
    by (simp add: AppRun_def AppRun_conversation_continuing [OF old sel]
        split: prod.splits option.splits)
  have missing: "\<forall>found err.
             FindExistingConversation env b (ConversationID req) (AppRun_search ctx req)
               = (found, Some err) \<longrightarrow>
             AppRun env ctx req messageID cs =
               (Return (Inl err), cs1,
                [FindExistingConversationCall (ConversationID req) (AppRun_search ctx req)])"
    using client got converted ready old
    by (auto simp: AppRun_def AppRun_conversation_continuing [OF old sel]
        split: option.splits)
  from search first missing show ?thesis by blast
qed

theorem AppRun_continuing_lookup_witness:
  "\<not> NewChat unknownReq
   \<and> IsReady demoEnv (Application ''kubeagi'')
   \<and> Storage demoEnv readyServer = (Return (Some [storedConversation]), readyServer)
   \<and> AppRun_search aliceCtx unknownReq =
        [WithAppName ''kubeagi'', WithAppNamespace ''arcadia'', WithDebug False,
         WithUser ''alice'']
   \<and> FindExistingConversation demoEnv [storedConversation] ''conv-404''
        [WithAppName ''kubeagi'', WithAppNamespace ''arcadia'', WithDebug False,
         WithUser ''alice''] = (None, Some (New ''conversation is not found''))
   \<and> AppRun demoEnv aliceCtx unknownReq ''msg-2'' readyServer =
        (Return (Inl (New ''conversation is not found'')), readyServer,
         [FindExistingConversationCall ''conv-404''
           [WithAppName ''kubeagi'', WithAppNamespace ''arcadia'', WithDebug False,
            WithUser ''alice'']])"
proof -
  have old: "\<not> NewChat unknownReq" by (simp add: unknownReq_def newChatReq_def)
  have client: "GetClient demoEnv (ForOIDCToken aliceCtx) = Inr (DynamicClient ''token-alice'')"
    by (rule demo_prelude)
  have got: "GetApplication demoEnv (DynamicClient ''token-alice'') (ReqAppNamespace unknownReq)
      (APPName unknownReq) = Inr (Unstructured ''kubeagi'')"
    using demo_prelude(2) by (simp add: unknownReq_def newChatReq_def)
  have converted: "FromUnstructured demoEnv (Unstructured ''kubeagi'')
      = Inr (Application ''kubeagi'')"
    by (rule demo_prelude)
  have ready: "IsReady demoEnv (Application ''kubeagi'')" by (rule demo_prelude)
  have sel: "Storage demoEnv readyServer = (Return (Some [storedConversation]), readyServer)"
    by (rule demo_selected)
  have search: "AppRun_search aliceCtx unknownReq =
        [WithAppName ''kubeagi'', WithAppNamespace ''arcadia'', WithDebug False,
         WithUser ''alice'']"
    by (simp add: AppRun_search_def currentUser_def aliceCtx_def unknownReq_def newChatReq_def)
  have missing: "FindExistingConversation demoEnv [storedConversation] ''conv-404''
        [WithAppName ''kubeagi'', WithAppNamespace ''arcadia'', WithDebug False,
         WithUser ''alice''] = (None, Some (New ''conversation is not found''))"
    by (simp add: demo_defs memory_defs)
  have cid: "ConversationID unknownReq = ''conv-404''"
    by (simp add: unknownReq_def)
  from AppRun_continuing_lookup [OF old client got converted ready sel, of "''msg-2''"]
    missing
  have "AppRun demoEnv aliceCtx unknownReq ''msg-2'' readyServer =
        (Return (Inl (New ''conversation is not found'')), readyServer,
         [FindExistingConversationCall ''conv-404''
           [WithAppName ''kubeagi'', WithAppNamespace ''arcadia'', WithDebug False,
            WithUser ''alice'']])"
    by (simp add: search cid)
  with old ready sel search missing show ?thesis by blast
qed

text \<open>
  C8: on a ready application whose runner is fetched, the runner is run on the request's
  query with the replay of the resolved conversation's messages as history: for a continuing
  chat the \<open>N\<close> messages of the conversation found, a query and then its answer for each, in
  their order (length \<open>2 * N\<close>); for a new chat the empty history. The outcome of the turn is
  the outcome of that run. The new message is not in the history: it is in the conversation
  handed to \<open>UpdateConversation\<close>, after the \<open>N\<close> found ones.
\<close>

theorem AppRun_history_replay:
  fixes env :: "'b Env"
  assumes client: "GetClient env (ForOIDCToken ctx) = Inr c"
    and got: "GetApplication env c (ReqAppNamespace req) (APPName req) = Inr obj"
    and converted: "FromUnstructured env obj = Inr app"
    and ready: "IsReady env app"
    and runner: "NewAppOrGetFromCache env (SetAppNamespace ctx (ReqAppNamespace req)) c app
                   = Inr appRun"
    and resolved:
      "(NewChat req \<and> cs0 = cs \<and> k = 2 \<and> pre = [] \<and>
        conversation = \<lparr>ID = ConversationID req, AppName = APPName req,
           AppNamespace = ReqAppNamespace req, StartedAt = Now env 0, UpdatedAt = Now env 1,
           Messages = [], User = currentUser ctx, Debug = ReqDebug req\<rparr>) \<or>
       (\<not> NewChat req \<and> Storage env cs = (Return (Some b0), cs0) \<and> k = 0 \<and>
        pre = [FindExistingConversationCall (ConversationID req) (AppRun_search ctx req)] \<and>
        FindExistingConversation env b0 (ConversationID req) (AppRun_search ctx req)
          = (Some conversation, None))"
  shows "AppRun env ctx req messageID cs =
     (let inp = \<lparr>Question = ReqQuery req, NeedStream = IsStreaming (ReqResponseMode req),
                 History = replayed (Messages conversation)\<rparr>;
          call = RunCall appRun (SetAppNamespace ctx (ReqAppNamespace req)) c inp
      in case Run env appRun (SetAppNamespace ctx (ReqAppNamespace req)) c inp of
           Inl err \<Rightarrow> (Return (Inl err), cs0, pre @ [call])
         | Inr out \<Rightarrow>
             (let stored = conversation\<lparr>UpdatedAt := Now env k,
                     Messages := Messages conversation @
                       [\<lparr>MsgID = messageID, Query = ReqQuery req, Answer = OutAnswer out,
                         References = OutReferences out\<rparr>]\<rparr>
              in case Storage env cs0 of
                   (Panic, cs1) \<Rightarrow> (Panic, cs1, pre @ [call])
                 | (Return None, cs1) \<Rightarrow> (Panic, cs1, pre @ [call])
                 | (Return (Some b), cs1) \<Rightarrow>
                     (case UpdateConversation env b stored of
                        (b', Some err) \<Rightarrow>
                          (Return (Inl err), cs1\<lparr>storage := Some b'\<rparr>,
                           pre @ [call, UpdateConversationCall stored])
                      | (b', None) \<Rightarrow>
                          (Return (Inr \<lparr>RespConversationID = ID conversation,
                                        RespMessageID = messageID,
                                        RespMessage = OutAnswer out,
                                        RespCreatedAt = Now env (k + 1),
                                        RespReferences = OutReferences out\<rparr>),
                           cs1\<lparr>storage := Some b'\<rparr>,
                           pre @ [call, UpdateConversationCall stored]))))
   \<and> replayed (Messages conversation) =
        concat (map (\<lambda>m. [HumanChatMessage (Query m), AIChatMessage (Answer m)])
          (Messages conversation))
   \<and> length (replayed (Messages conversation)) = 2 * length (Messages conversation)
   \<and> (NewChat req \<longrightarrow> replayed (Messages conversation) = [])"
proof -
  let ?rctx = "SetAppNamespace ctx (ReqAppNamespace req)"
  let ?inp = "\<lparr>Question = ReqQuery req, NeedStream = IsStreaming (ReqResponseMode req),
                 History = replayed (Messages conversation)\<rparr>"
  have res: "AppRun_conversation env ctx req cs =
      (Return (Inr (conversation, replayed (Messages conversation))), cs0, pre)"
    and k: "(if NewChat req then 2 else 0) = k"
    and new: "NewChat req \<longrightarrow> replayed (Messages conversation) = []"
    using resolved
  proof -
    from resolved show "AppRun_conversation env ctx req cs =
      (Return (Inr (conversation, replayed (Messages conversation))), cs0, pre)"
    proof
      assume h: "NewChat req \<and> cs0 = cs \<and> k = 2 \<and> pre = [] \<and>
        conversation = \<lparr>ID = ConversationID req, AppName = APPName req,
           AppNamespace = ReqAppNamespace req, StartedAt = Now env 0, UpdatedAt = Now env 1,
           Messages = [], User = currentUser ctx, Debug = ReqDebug req\<rparr>"
      then have "NewChat req" by simp
      from AppRun_conversation_new [OF this, of env ctx cs] h show ?thesis
        by (simp add: replayed_def)
    next
      assume h: "\<not> NewChat req \<and> Storage env cs = (Return (Some b0), cs0) \<and> k = 0 \<and>
        pre = [FindExistingConversationCall (ConversationID req) (AppRun_search ctx req)] \<and>
        FindExistingConversation env b0 (ConversationID req) (AppRun_search ctx req)
          = (Some conversation, None)"
      then have old: "\<not> NewChat req" and sel: "Storage env cs = (Return (Some b0), cs0)"
        by simp_all
      from AppRun_conversation_continuing [OF old sel, of ctx] h show ?thesis by simp
    qed
    from resolved show "(if NewChat req then 2 else 0) = k" by auto
    from resolved show "NewChat req \<longrightarrow> replayed (Messages conversation) = []"
      by (auto simp: replayed_def)
  qed
  have whole: "AppRun env ctx req messageID cs =
      (case AppRun_run env ctx req messageID c app conversation
              (replayed (Messages conversation)) k cs0 of
         (r, cs2, calls2) \<Rightarrow> (r, cs2, pre @ calls2))"
    using client got converted ready res k by (simp add: AppRun_def)
  have eq: "AppRun env ctx req messageID cs =
     (let inp = ?inp; call = RunCall appRun ?rctx c inp
      in case Run env appRun ?rctx c inp of
           Inl err \<Rightarrow> (Return (Inl err), cs0, pre @ [call])
         | Inr out \<Rightarrow>
             (let stored = conversation\<lparr>UpdatedAt := Now env k,
                     Messages := Messages conversation @
                       [\<lparr>MsgID = messageID, Query = ReqQuery req, Answer = OutAnswer out,
                         References = OutReferences out\<rparr>]\<rparr>
              in case Storage env cs0 of
                   (Panic, cs1) \<Rightarrow> (Panic, cs1, pre @ [call])
                 | (Return None, cs1) \<Rightarrow> (Panic, cs1, pre @ [call])
                 | (Return (Some b), cs1) \<Rightarrow>
                     (case UpdateConversation env b stored of
                        (b', Some err) \<Rightarrow>
                          (Return (Inl err), cs1\<lparr>storage := Some b'\<rparr>,
                           pre @ [call, UpdateConversationCall stored])
                      | (b', None) \<Rightarrow>
                          (Return (Inr \<lparr>RespConversationID = ID conversation,
                                        RespMessageID = messageID,
                                        RespMessage = OutAnswer out,
                                        RespCreatedAt = Now env (k + 1),
                                        RespReferences = OutReferences out\<rparr>),
                           cs1\<lparr>storage := Some b'\<rparr>,
                           pre @ [call, UpdateConversationCall stored]))))"
  proof (cases "Run env appRun ?rctx c ?inp")
    case (Inl err)
    show ?thesis
      by (simp add: whole AppRun_run_failure [OF runner Inl] Inl Let_def)
  next
    case (Inr out)
    show ?thesis
      by (simp add: whole AppRun_run_success [OF runner Inr] Inr Let_def appended_def
          split: prod.splits option.splits outcome.splits)
  qed
  have shape: "replayed (Messages conversation) =
        concat (map (\<lambda>m. [HumanChatMessage (Query m), AIChatMessage (Answer m)])
          (Messages conversation))"
    by (simp add: replayed_def)
  from eq shape length_replayed [of "Messages conversation"] new show ?thesis by blast
qed

theorem AppRun_history_replay_witness:
  "\<not> NewChat continueReq
   \<and> Storage demoEnv readyServer = (Return (Some [storedConversation]), readyServer)
   \<and> FindExistingConversation demoEnv [storedConversation] ''conv-1''
        [WithAppName ''kubeagi'', WithAppNamespace ''arcadia'', WithDebug False,
         WithUser ''alice''] = (Some storedConversation, None)
   \<and> length (Messages storedConversation) = 2
   \<and> replayed (Messages storedConversation) =
        [HumanChatMessage ''Hello?'', AIChatMessage [],
         HumanChatMessage ''What is KubeAGI?'', AIChatMessage ''KubeAGI is an orchestrator'']
   \<and> Run demoEnv (AppRunner ''kubeagi-runner'') runCtx (DynamicClient ''token-alice'')
        \<lparr>Question = ''What is KubeAGI?'', NeedStream = False,
         History = replayed (Messages storedConversation)\<rparr> = Inr demoOutput
   \<and> AppRun demoEnv aliceCtx continueReq ''msg-2'' readyServer =
       (Return (Inr \<lparr>RespConversationID = ''conv-1'', RespMessageID = ''msg-2'',
                     RespMessage = ''KubeAGI is an orchestrator'', RespCreatedAt = 1001,
                     RespReferences = Some [Reference ''README'']\<rparr>),
        \<lparr>storage = Some [continuedConversation], once = True\<rparr>,
        [FindExistingConversationCall ''conv-1''
           [WithAppName ''kubeagi'', WithAppNamespace ''arcadia'', WithDebug False,
            WithUser ''alice''],
         RunCall (AppRunner ''kubeagi-runner'') runCtx (DynamicClient ''token-alice'')
           \<lparr>Question = ''What is KubeAGI?'', NeedStream = False,
            History = replayed (Messages storedConversation)\<rparr>,
         UpdateConversationCall continuedConversation])"
proof -
  have old: "\<not> NewChat continueReq" by (simp add: continueReq_def newChatReq_def)
  have client: "GetClient demoEnv (ForOIDCToken aliceCtx) = Inr (DynamicClient ''token-alice'')"
    by (rule demo_prelude)
  have got: "GetApplication demoEnv (DynamicClient ''token-alice'')
      (ReqAppNamespace continueReq) (APPName continueReq) = Inr (Unstructured ''kubeagi'')"
    using demo_prelude(2) by (simp add: continueReq_def newChatReq_def)
  have converted: "FromUnstructured demoEnv (Unstructured ''kubeagi'')
      = Inr (Application ''kubeagi'')"
    by (rule demo_prelude)
  have ready: "IsReady demoEnv (Application ''kubeagi'')" by (rule demo_prelude)
  have runner: "NewAppOrGetFromCache demoEnv
      (SetAppNamespace aliceCtx (ReqAppNamespace continueReq)) (DynamicClient ''token-alice'')
      (Application ''kubeagi'') = Inr (AppRunner ''kubeagi-runner'')"
    by (simp add: demoEnv_def)
  have sel: "Storage demoEnv readyServer = (Return (Some [storedConversation]), readyServer)"
    by (rule demo_selected)
  have search: "AppRun_search aliceCtx continueReq =
      [WithAppName ''kubeagi'', WithAppNamespace ''arcadia'', WithDebug False,
       WithUser ''alice'']"
    by (simp add: AppRun_search_def currentUser_def aliceCtx_def continueReq_def newChatReq_def)
  have cid: "ConversationID continueReq = ''conv-1''"
    by (simp add: continueReq_def newChatReq_def)
  have found: "FindExistingConversation demoEnv [storedConversation] ''conv-1''
        [WithAppName ''kubeagi'', WithAppNamespace ''arcadia'', WithDebug False,
         WithUser ''alice''] = (Some storedConversation, None)"
    by (simp add: demo_defs memory_defs)
  have resolved:
    "(NewChat continueReq \<and> readyServer = readyServer \<and> (0::nat) = 2 \<and>
        [FindExistingConversationCall (ConversationID continueReq)
           (AppRun_search aliceCtx continueReq)] = [] \<and>
        storedConversation = \<lparr>ID = ConversationID continueReq, AppName = APPName continueReq,
           AppNamespace = ReqAppNamespace continueReq, StartedAt = Now demoEnv 0,
           UpdatedAt = Now demoEnv 1, Messages = [], User = currentUser aliceCtx,
           Debug = ReqDebug continueReq\<rparr>) \<or>
     (\<not> NewChat continueReq \<and>
        Storage demoEnv readyServer = (Return (Some [storedConversation]), readyServer) \<and>
        (0::nat) = 0 \<and>
        [FindExistingConversationCall (ConversationID continueReq)
           (AppRun_search aliceCtx continueReq)] =
        [FindExistingConversationCall (ConversationID continueReq)
           (AppRun_search aliceCtx continueReq)] \<and>
        FindExistingConversation demoEnv [storedConversation] (ConversationID continueReq)
          (AppRun_search aliceCtx continueReq) = (Some storedConversation, None))"
    using old sel found by (simp add: search cid)
  have two: "length (Messages storedConversation) = 2"
    by (simp add: storedConversation_def)
  have hist: "replayed (Messages storedConversation) =
        [HumanChatMessage ''Hello?'', AIChatMessage [],
         HumanChatMessage ''What is KubeAGI?'', AIChatMessage ''KubeAGI is an orchestrator'']"
    by (simp add: replayed_def storedConversation_def pendingMessage_def firstMessage_def)
  have out: "Run demoEnv (AppRunner ''kubeagi-runner'') runCtx (DynamicClient ''token-alice'')
        \<lparr>Question = ''What is KubeAGI?'', NeedStream = False,
         History = replayed (Messages storedConversation)\<rparr> = Inr demoOutput"
    by (simp add: demoEnv_def)
  have upd: "UpdateConversation demoEnv [storedConversation]
      (storedConversation\<lparr>UpdatedAt := 1000,
         Messages := Messages storedConversation @
           [\<lparr>MsgID = ''msg-2'', Query = ''What is KubeAGI?'',
             Answer = ''KubeAGI is an orchestrator'',
             References = Some [Reference ''README'']\<rparr>]\<rparr>)
      = ([continuedConversation], None)"
    by (simp add: demo_defs memory_defs continuedConversation_def)
  have same: "storedConversation\<lparr>UpdatedAt := 1000,
         Messages := Messages storedConversation @
           [\<lparr>MsgID = ''msg-2'', Query = ''What is KubeAGI?'',
             Answer = ''KubeAGI is an orchestrator'',
             References = Some [Reference ''README'']\<rparr>]\<rparr> = continuedConversation"
    by (simp add: demo_defs continuedConversation_def)
  have turn: "AppRun demoEnv aliceCtx continueReq ''msg-2'' readyServer =
       (Return (Inr \<lparr>RespConversationID = ''conv-1'', RespMessageID = ''msg-2'',
                     RespMessage = ''KubeAGI is an orchestrator'', RespCreatedAt = 1001,
                     RespReferences = Some [Reference ''README'']\<rparr>),
        \<lparr>storage = Some [continuedConversation], once = True\<rparr>,
        [FindExistingConversationCall ''conv-1''
           [WithAppName ''kubeagi'', WithAppNamespace ''arcadia'', WithDebug False,
            WithUser ''alice''],
         RunCall (AppRunner ''kubeagi-runner'') runCtx (DynamicClient ''token-alice'')
           \<lparr>Question = ''What is KubeAGI?'', NeedStream = False,
            History = replayed (Messages storedConversation)\<rparr>,
         UpdateConversationCall continuedConversation])"
  proof -
    have ctx: "SetAppNamespace aliceCtx (ReqAppNamespace continueReq) = runCtx"
      by (simp add: SetAppNamespace_def runCtx_def continueReq_def newChatReq_def)
    have q: "ReqQuery continueReq = ''What is KubeAGI?''"
      "IsStreaming (ReqResponseMode continueReq) = False"
      by (simp_all add: continueReq_def newChatReq_def IsStreaming_def)
    have now: "Now demoEnv 0 = 1000" "Now demoEnv (0 + 1) = 1001"
      by (simp_all add: demoEnv_def)
    have ans: "OutAnswer demoOutput = ''KubeAGI is an orchestrator''"
      "OutReferences demoOutput = Some [Reference ''README'']"
      by (simp_all add: demoOutput_def)
    have id: "ID storedConversation = ''conv-1''" by (simp add: storedConversation_def)
    have st: "readyServer\<lparr>storage := Some [continuedConversation]\<rparr>
        = \<lparr>storage = Some [continuedConversation], once = True\<rparr>"
      by (simp add: readyServer_def)
    from AppRun_history_replay [OF client got converted ready runner resolved, of "''msg-2''"]
    have "AppRun demoEnv aliceCtx continueReq ''msg-2'' readyServer =
     (let inp = \<lparr>Question = ReqQuery continueReq,
                  NeedStream = IsStreaming (ReqResponseMode continueReq),
                  History = replayed (Messages storedConversation)\<rparr>;
          call = RunCall (AppRunner ''kubeagi-runner'')
                   (SetAppNamespace aliceCtx (ReqAppNamespace continueReq))
                   (DynamicClient ''token-alice'') inp
      in case Run demoEnv (AppRunner ''kubeagi-runner'')
                (SetAppNamespace aliceCtx (ReqAppNamespace continueReq))
                (DynamicClient ''token-alice'') inp of
           Inl err \<Rightarrow> (Return (Inl err), readyServer,
              [FindExistingConversationCall (ConversationID continueReq)
                (AppRun_search aliceCtx continueReq)] @ [call])
         | Inr out \<Rightarrow>
             (let stored = storedConversation\<lparr>UpdatedAt := Now demoEnv 0,
                     Messages := Messages storedConversation @
                       [\<lparr>MsgID = ''msg-2'', Query = ReqQuery continueReq,
                         Answer = OutAnswer out, References = OutReferences out\<rparr>]\<rparr>
              in case Storage demoEnv readyServer of
                   (Panic, cs1) \<Rightarrow> (Panic, cs1,
                     [FindExistingConversationCall (ConversationID continueReq)
                       (AppRun_search aliceCtx continueReq)] @ [call])
                 | (Return None, cs1) \<Rightarrow> (Panic, cs1,
                     [FindExistingConversationCall (ConversationID continueReq)
                       (AppRun_search aliceCtx continueReq)] @ [call])
                 | (Return (Some b), cs1) \<Rightarrow>
                     (case UpdateConversation demoEnv b stored of
                        (b', Some err) \<Rightarrow>
                          (Return (Inl err), cs1\<lparr>storage := Some b'\<rparr>,
                           [FindExistingConversationCall (ConversationID continueReq)
                             (AppRun_search aliceCtx continueReq)] @
                           [call, UpdateConversationCall stored])
                      | (b', None) \<Rightarrow>
                          (Return (Inr \<lparr>RespConversationID = ID storedConversation,
                                        RespMessageID = ''msg-2'',
                                        RespMessage = OutAnswer out,
                                        RespCreatedAt = Now demoEnv (0 + 1),
                                        RespReferences = OutReferences out\<rparr>),
                           cs1\<lparr>storage := Some b'\<rparr>,
                           [FindExistingConversationCall (ConversationID continueReq)
                             (AppRun_search aliceCtx continueReq)] @
                           [call, UpdateConversationCall stored]))))"
      by blast
    then show ?thesis
      unfolding Let_def ctx q out sum.case sel prod.case outcome.case option.case now ans
        same id search cid
      using upd [unfolded same] by (simp add: st)
  qed
  from old sel found two hist out turn show ?thesis by blast
qed

section \<open>Properties of listing, retrieval and delete\<close>

text \<open>
  C9, as the spec has it (all four operations pass the application identity and the user
  identity): \<open>DeleteConversation\<close> receives no application identity and passes none; its
  options are the conversation ID and the user.
\<close>

theorem DeleteConversation_no_app_identity:
  "DeleteConversation demoEnv aliceCtx ''conv-1'' readyServer =
     (Return None, emptyServer, [DeleteCall [WithConversationID ''conv-1'', WithUser ''alice'']])
   \<and> \<not> list_ex is_app_option [WithConversationID ''conv-1'', WithUser ''alice'']"
  by (simp add: DeleteConversation_def Storage_def readyServer_def emptyServer_def demoEnv_def
      memory_Delete_def options_hold_def storedConversation_def aliceCtx_def currentUser_def)

text \<open>
  C9, amended: \<open>ListConversations\<close>, \<open>ListMessages\<close> and \<open>GetMessageReferences\<close> pass the
  application's namespace and name and the user identity of the context to the one
  repository call they make; \<open>DeleteConversation\<close> passes the conversation ID and the user
  identity. What each operation returns, and the backend it leaves, is what that call on
  those options gives.
\<close>

theorem scoping_predicates_passed:
  assumes sel: "Storage env cs = (Return (Some b), cs1)"
  shows "ListConversations env ctx areq cs =
           (Return (ListConversationsOf env b
              [WithAppNamespace (ReqAppNamespace areq), WithAppName (APPName areq),
               WithUser (currentUser ctx), WithUser (currentUser ctx)]),
            cs1,
            [ListConversationsCall [WithAppNamespace (ReqAppNamespace areq),
               WithAppName (APPName areq), WithUser (currentUser ctx),
               WithUser (currentUser ctx)]])
       \<and> ListMessages env ctx creq cs =
           (Return (case FindExistingConversation env b (ConversationID creq)
                      [WithAppNamespace (ReqAppNamespace creq), WithAppName (APPName creq),
                       WithAppNamespace (ReqAppNamespace creq), WithUser (currentUser ctx)] of
                      (found, Some err) \<Rightarrow> Inl err
                    | (Some conv, None) \<Rightarrow> Inr conv
                    | (None, None) \<Rightarrow> Inl (New ''conversation is not found'')),
            cs1,
            [FindExistingConversationCall (ConversationID creq)
              [WithAppNamespace (ReqAppNamespace creq), WithAppName (APPName creq),
               WithAppNamespace (ReqAppNamespace creq), WithUser (currentUser ctx)]])
       \<and> GetMessageReferences env ctx mreq cs =
           (Return (case FindExistingMessage env b (ConversationID mreq) (MessageID mreq)
                      [WithAppNamespace (ReqAppNamespace mreq), WithAppName (APPName mreq),
                       WithAppNamespace (ReqAppNamespace mreq), WithUser (currentUser ctx)] of
                      (found, Some err) \<Rightarrow> Inl err
                    | (Some m, None) \<Rightarrow>
                        (case References m of
                           Some refs \<Rightarrow> Inr refs
                         | None \<Rightarrow> Inl (New ''conversation or message is not found''))
                    | (None, None) \<Rightarrow> Inl (New ''conversation or message is not found'')),
            cs1,
            [FindExistingMessageCall (ConversationID mreq) (MessageID mreq)
              [WithAppNamespace (ReqAppNamespace mreq), WithAppName (APPName mreq),
               WithAppNamespace (ReqAppNamespace mreq), WithUser (currentUser ctx)]])
       \<and> DeleteConversation env ctx conversationID cs =
           (Return (snd (Delete env b
              [WithConversationID conversationID, WithUser (currentUser ctx)])),
            cs1\<lparr>storage := Some (fst (Delete env b
              [WithConversationID conversationID, WithUser (currentUser ctx)]))\<rparr>,
            [DeleteCall [WithConversationID conversationID, WithUser (currentUser ctx)]])"
proof -
  have a: "ListConversations env ctx areq cs =
           (Return (ListConversationsOf env b
              [WithAppNamespace (ReqAppNamespace areq), WithAppName (APPName areq),
               WithUser (currentUser ctx), WithUser (currentUser ctx)]),
            cs1,
            [ListConversationsCall [WithAppNamespace (ReqAppNamespace areq),
               WithAppName (APPName areq), WithUser (currentUser ctx),
               WithUser (currentUser ctx)]])"
    using sel by (simp add: ListConversations_def Let_def)
  have b: "ListMessages env ctx creq cs =
           (Return (case FindExistingConversation env b (ConversationID creq)
                      [WithAppNamespace (ReqAppNamespace creq), WithAppName (APPName creq),
                       WithAppNamespace (ReqAppNamespace creq), WithUser (currentUser ctx)] of
                      (found, Some err) \<Rightarrow> Inl err
                    | (Some conv, None) \<Rightarrow> Inr conv
                    | (None, None) \<Rightarrow> Inl (New ''conversation is not found'')),
            cs1,
            [FindExistingConversationCall (ConversationID creq)
              [WithAppNamespace (ReqAppNamespace creq), WithAppName (APPName creq),
               WithAppNamespace (ReqAppNamespace creq), WithUser (currentUser ctx)]])"
    using sel by (simp add: ListMessages_def Let_def split: prod.splits option.splits)
  have c: "GetMessageReferences env ctx mreq cs =
           (Return (case FindExistingMessage env b (ConversationID mreq) (MessageID mreq)
                      [WithAppNamespace (ReqAppNamespace mreq), WithAppName (APPName mreq),
                       WithAppNamespace (ReqAppNamespace mreq), WithUser (currentUser ctx)] of
                      (found, Some err) \<Rightarrow> Inl err
                    | (Some m, None) \<Rightarrow>
                        (case References m of
                           Some refs \<Rightarrow> Inr refs
                         | None \<Rightarrow> Inl (New ''conversation or message is not found''))
                    | (None, None) \<Rightarrow> Inl (New ''conversation or message is not found'')),
            cs1,
            [FindExistingMessageCall (ConversationID mreq) (MessageID mreq)
              [WithAppNamespace (ReqAppNamespace mreq), WithAppName (APPName mreq),
               WithAppNamespace (ReqAppNamespace mreq), WithUser (currentUser ctx)]])"
    using sel
    by (simp add: GetMessageReferences_def Let_def split: prod.splits option.splits)
  have d: "DeleteConversation env ctx conversationID cs =
           (Return (snd (Delete env b
              [WithConversationID conversationID, WithUser (currentUser ctx)])),
            cs1\<lparr>storage := Some (fst (Delete env b
              [WithConversationID conversationID, WithUser (currentUser ctx)]))\<rparr>,
            [DeleteCall [WithConversationID conversationID, WithUser (currentUser ctx)]])"
    using sel by (simp add: DeleteConversation_def Let_def split: prod.splits)
  from a b c d show ?thesis by simp
qed

theorem scoping_predicates_passed_witness:
  "Storage demoEnv readyServer = (Return (Some [storedConversation]), readyServer)
   \<and> ListConversations demoEnv aliceCtx listReq readyServer =
       (Return ([storedConversation], None), readyServer,
        [ListConversationsCall [WithAppNamespace ''arcadia'', WithAppName ''kubeagi'',
           WithUser ''alice'', WithUser ''alice'']])
   \<and> ListMessages demoEnv aliceCtx listReq readyServer =
       (Return (Inr storedConversation), readyServer,
        [FindExistingConversationCall ''conv-1''
          [WithAppNamespace ''arcadia'', WithAppName ''kubeagi'', WithAppNamespace ''arcadia'',
           WithUser ''alice'']])
   \<and> GetMessageReferences demoEnv aliceCtx pendingReq readyServer =
       (Return (Inl (New ''conversation or message is not found'')), readyServer,
        [FindExistingMessageCall ''conv-1'' ''msg-0''
          [WithAppNamespace ''arcadia'', WithAppName ''kubeagi'', WithAppNamespace ''arcadia'',
           WithUser ''alice'']])
   \<and> DeleteConversation demoEnv aliceCtx ''conv-1'' readyServer =
       (Return None, emptyServer,
        [DeleteCall [WithConversationID ''conv-1'', WithUser ''alice'']])"
proof -
  have sel: "Storage demoEnv readyServer = (Return (Some [storedConversation]), readyServer)"
    by (rule demo_selected)
  have lst: "ListConversationsOf demoEnv [storedConversation]
      [WithAppNamespace ''arcadia'', WithAppName ''kubeagi'', WithUser ''alice'',
       WithUser ''alice''] = ([storedConversation], None)"
    by (simp add: demo_defs memory_defs)
  have fnd: "FindExistingConversation demoEnv [storedConversation] ''conv-1''
      [WithAppNamespace ''arcadia'', WithAppName ''kubeagi'', WithAppNamespace ''arcadia'',
       WithUser ''alice''] = (Some storedConversation, None)"
    by (simp add: demo_defs memory_defs)
  have del: "Delete demoEnv [storedConversation]
      [WithConversationID ''conv-1'', WithUser ''alice''] = ([], None)"
    by (simp add: demo_defs memory_defs)
  have nil: "References pendingMessage = None" by (simp add: pendingMessage_def)
  have srv: "readyServer\<lparr>storage := Some []\<rparr> = emptyServer"
    by (simp add: readyServer_def emptyServer_def)
  have flds: "ReqAppNamespace listReq = ''arcadia''" "APPName listReq = ''kubeagi''"
    "ConversationID listReq = ''conv-1''" "ReqAppNamespace pendingReq = ''arcadia''"
    "APPName pendingReq = ''kubeagi''" "ConversationID pendingReq = ''conv-1''"
    "MessageID pendingReq = ''msg-0''" "currentUser aliceCtx = ''alice''"
    by (simp_all add: listReq_def pendingReq_def aliceCtx_def currentUser_def)
  from scoping_predicates_passed [OF sel, of aliceCtx listReq listReq pendingReq "''conv-1''"]
  show ?thesis
    unfolding flds lst fnd del demo_find_pending
    using sel by (simp add: nil srv)
qed

text \<open>
  C10: when \<open>FindExistingMessage\<close> finds a message, \<open>GetMessageReferences\<close> returns its
  references if the \<open>References\<close> field is not nil, and the error
  \<open>conversation or message is not found\<close> if it is nil (never an empty list in its place).
\<close>

theorem GetMessageReferences_nil_references:
  assumes sel: "Storage env cs = (Return (Some b), cs1)"
    and found: "FindExistingMessage env b (ConversationID req) (MessageID req)
         [WithAppNamespace (ReqAppNamespace req), WithAppName (APPName req),
          WithAppNamespace (ReqAppNamespace req), WithUser (currentUser ctx)] = (Some m, None)"
  shows "fst (GetMessageReferences env ctx req cs) =
           (case References m of
              None \<Rightarrow> Return (Inl (New ''conversation or message is not found''))
            | Some refs \<Rightarrow> Return (Inr refs))
         \<and> ((\<exists>refs. fst (GetMessageReferences env ctx req cs) = Return (Inr refs))
              \<longleftrightarrow> References m \<noteq> None)"
  using sel found
  by (simp add: GetMessageReferences_def Let_def split: option.splits)

theorem GetMessageReferences_nil_references_witness:
  "Storage demoEnv readyServer = (Return (Some [storedConversation]), readyServer)
   \<and> FindExistingMessage demoEnv [storedConversation] ''conv-1'' ''msg-0''
     [WithAppNamespace ''arcadia'', WithAppName ''kubeagi'', WithAppNamespace ''arcadia'',
      WithUser ''alice''] = (Some pendingMessage, None)
   \<and> References pendingMessage = None
   \<and> fst (GetMessageReferences demoEnv aliceCtx pendingReq readyServer) =
       Return (Inl (New ''conversation or message is not found''))"
proof -
  have sel: "Storage demoEnv readyServer = (Return (Some [storedConversation]), readyServer)"
    by (simp add: Storage_def readyServer_def)
  have found: "FindExistingMessage demoEnv [storedConversation] (ConversationID pendingReq)
       (MessageID pendingReq)
       [WithAppNamespace (ReqAppNamespace pendingReq), WithAppName (APPName pendingReq),
        WithAppNamespace (ReqAppNamespace pendingReq), WithUser (currentUser aliceCtx)]
       = (Some pendingMessage, None)"
    using demo_find_pending by (simp add: pendingReq_def aliceCtx_def currentUser_def)
  have nil: "References pendingMessage = None"
    by (simp add: pendingMessage_def)
  from GetMessageReferences_nil_references [OF sel found] nil sel demo_find_pending
  show ?thesis by simp
qed

end
